theory Spec2Isabelle
  imports Complex_Main "HOL-Library.Multiset"
begin

section \<open>The chat session store of AingDesk (electron/service/chat.ts)\<close>

text \<open>
  The development follows \<^verbatim>\<open>ChatService\<close> of \<^verbatim>\<open>src/electron/service/chat.ts\<close>.
  JavaScript strings are sequences of UTF-16 code units and \<^verbatim>\<open>s.length\<close> counts them;
  a \<^typ>\<open>string\<close> stands for such a sequence, one \<^typ>\<open>char\<close> per code unit, so
  \<^verbatim>\<open>s.length\<close> is \<^term>\<open>length s\<close> and \<^verbatim>\<open>s.substring(0, n)\<close> is \<^term>\<open>take n s\<close>.
  Numbers that the service handles (token counts, timestamps, context lengths) are
  integers and are modelled by \<^typ>\<open>int\<close>.
\<close>

subsection \<open>Data model\<close>

text \<open>
  \<^verbatim>\<open>ChatHistory\<close> (chat.ts, lines 18 to 32). The field \<^verbatim>\<open>id\<close> is called \<open>id_h\<close>,
  since \<open>id\<close> is the identity function of HOL. \<^verbatim>\<open>stat\<close> (an object) is an association
  list, \<^verbatim>\<open>search_result\<close> (any[]) a list of strings, and a field that may be undefined
  or null is an option.
\<close>

record ChatHistory =
  id_h :: string
  reasoning :: string
  role :: string
  content :: string
  images :: "string list"
  tool_calls :: string
  created_at :: string
  create_time :: int
  stat :: "(string \<times> string) list"
  tokens :: int
  search_result :: "string list"
  search_type :: "string option"
  search_query :: "string option"

text \<open>
  \<^verbatim>\<open>ChatContext\<close> (chat.ts, lines 41 to 46); its fields carry the suffix \<open>_c\<close>, the
  names without suffix being those of \<^typ>\<open>ChatHistory\<close>.
\<close>

record ChatContext =
  role_c :: string
  content_c :: string
  images_c :: "string list"
  tool_calls_c :: string

text \<open>
  An element of the list that \<^verbatim>\<open>build_chat_history\<close> returns: either an object literal
  \<^verbatim>\<open>{ role, content }\<close>, which has no other property, or the \<^verbatim>\<open>chatContext\<close> object itself,
  which also has \<^verbatim>\<open>images\<close> and \<^verbatim>\<open>tool_calls\<close>. An absent property is \<^term>\<open>None\<close>.
\<close>

record ContextItem =
  item_role :: string
  item_content :: string
  item_images :: "string list option"
  item_tool_calls :: "string option"

subsection \<open>JavaScript primitives used by the history operations\<close>

text \<open>
  \<^verbatim>\<open>Math.round(x)\<close>: the nearest integer, a tie going towards plus infinity.
\<close>

definition Math_round :: "real \<Rightarrow> int" where
  "Math_round x = \<lfloor>x + 1 / 2\<rfloor>"

text \<open>
  \<^verbatim>\<open>const historyMaxContextLength = Math.round(contextLength * 0.5)\<close>, the budget that
  \<^verbatim>\<open>build_chat_history\<close> (line 273) and \<^verbatim>\<open>save_chat_history\<close> (line 304) compute from
  an integer \<^verbatim>\<open>contextLength\<close>.
\<close>

definition historyMaxContextLength :: "int \<Rightarrow> int" where
  "historyMaxContextLength contextLength = Math_round (of_int contextLength * 0.5)"

text \<open>
  \<^verbatim>\<open>Array.prototype.findIndex\<close>: the index of the first element that satisfies the
  predicate, or \<open>-1\<close>.
\<close>

fun findIndex :: "('a \<Rightarrow> bool) \<Rightarrow> 'a list \<Rightarrow> int" where
  "findIndex P [] = - 1"
| "findIndex P (x # xs) =
     (if P x then 0
      else (let i = findIndex P xs in if i > - 1 then i + 1 else - 1))"

text \<open>
  The truthiness test \<^verbatim>\<open>if (regenerate_id)\<close> on a value of type
  \<^verbatim>\<open>string | undefined\<close>: undefined and the empty string are falsy.
\<close>

fun truthy :: "string option \<Rightarrow> bool" where
  "truthy None = False"
| "truthy (Some s) = (s \<noteq> [])"

text \<open>
  The trimming loop shared by \<^verbatim>\<open>build_chat_history\<close> (lines 275 to 280, the weight of
  an entry being \<^verbatim>\<open>content.length\<close>) and \<^verbatim>\<open>save_chat_history\<close> (lines 321 to 326, the
  weight being \<^verbatim>\<open>tokens\<close>):
  \<^verbatim>\<open>while (totalTokens > max && list.length > 0) { first = list.shift(); totalTokens -= weight(first) }\<close>.
  It returns the final \<^verbatim>\<open>totalTokens\<close> and the remaining list.
\<close>

fun shift_oldest :: "('a \<Rightarrow> int) \<Rightarrow> int \<Rightarrow> int \<Rightarrow> 'a list \<Rightarrow> int \<times> 'a list" where
  "shift_oldest weight mx totalTokens [] = (totalTokens, [])"
| "shift_oldest weight mx totalTokens (firstHistory # rest) =
     (if totalTokens > mx
      then shift_oldest weight mx (totalTokens - weight firstHistory) rest
      else (totalTokens, firstHistory # rest))"

subsection \<open>Operations on the history of one conversation\<close>

text \<open>
  Each operation reads the history of the conversation with \<^verbatim>\<open>read_history(uuid)\<close>,
  computes a new list and hands it to \<^verbatim>\<open>save_history(uuid, ...)\<close>. The model is the
  function from the list read to the list handed over. Two values come from
  \<^verbatim>\<open>class/public\<close>, which is not part of the sources at hand, and are parameters:
  \<open>new_id\<close>, the result of \<^verbatim>\<open>pub.uuid()\<close>, and \<open>interrupted\<close>, the localized text that
  \<^verbatim>\<open>pub.lang\<close> returns for the key meaning "unexpectedly interrupted".
\<close>

text \<open>
  \<^verbatim>\<open>build_chat_history\<close> (lines 264 to 286). \<open>role_content\<close> is the arrow function
  \<^verbatim>\<open>item => ({ role: item.role, content: item.content })\<close>, and \<open>as_item\<close> is the
  \<^verbatim>\<open>chatContext\<close> object as an element of the returned list.
\<close>

definition role_content :: "ChatHistory \<Rightarrow> ContextItem" where
  "role_content item = \<lparr>item_role = role item, item_content = content item,
                         item_images = None, item_tool_calls = None\<rparr>"

definition as_item :: "ChatContext \<Rightarrow> ContextItem" where
  "as_item chatContext =
     \<lparr>item_role = role_c chatContext, item_content = content_c chatContext,
      item_images = Some (images_c chatContext),
      item_tool_calls = Some (tool_calls_c chatContext)\<rparr>"

definition build_chat_history :: "ChatHistory list \<Rightarrow> ChatContext \<Rightarrow> int \<Rightarrow> ContextItem list" where
  "build_chat_history contextList0 chatContext contextLength =
     (let totalTokens = foldl (\<lambda>t item. t + int (length (content item)))
                          (int (length (content_c chatContext))) contextList0;
          contextList = snd (shift_oldest (\<lambda>item. int (length (content item)))
                          (historyMaxContextLength contextLength) totalTokens contextList0);
          historyList = map role_content contextList
      in historyList @ [as_item chatContext])"

text \<open>
  \<^verbatim>\<open>save_chat_history\<close> (lines 294 to 329). \<open>history\<close> is the entry of the user,
  \<open>historyRes\<close> the entry of the assistant; they are two distinct objects.
\<close>

definition save_chat_history ::
  "string \<Rightarrow> string \<Rightarrow> ChatHistory list \<Rightarrow> ChatHistory \<Rightarrow> ChatHistory \<Rightarrow> int \<Rightarrow> string option
     \<Rightarrow> ChatHistory list" where
  "save_chat_history new_id interrupted historyList0 history0 historyRes0 contextLength regenerate_id =
     (let history1 = history0\<lparr>id_h := new_id\<rparr>;
          history = history1\<lparr>tokens :=
                      (if content history1 \<noteq> [] then int (length (content history1)) else 0)\<rparr>;
          totalTokens = tokens history;
          historyRes = historyRes0\<lparr>content := interrupted\<rparr>;
          historyList1 =
            (if truthy regenerate_id
             then (let index = findIndex (\<lambda>item. Some (id_h item) = regenerate_id) historyList0
                   in if index > - 1 then take (nat index) historyList0 else historyList0)
             else historyList0 @ [history]);
          historyList = historyList1 @ [historyRes]
      in snd (shift_oldest tokens (historyMaxContextLength contextLength) totalTokens historyList))"

text \<open>
  \<^verbatim>\<open>set_chat_history\<close> (lines 337 to 342). When no entry has the id, \<^verbatim>\<open>findIndex\<close>
  returns \<open>-1\<close> and \<^verbatim>\<open>historyList[-1] = history\<close> creates a property named "-1", which
  is no element of the array and which \<^verbatim>\<open>JSON.stringify\<close> leaves out: the list that is
  saved is the one that was read.
\<close>

definition set_chat_history :: "ChatHistory list \<Rightarrow> string \<Rightarrow> ChatHistory \<Rightarrow> ChatHistory list" where
  "set_chat_history historyList ident history =
     (let index = findIndex (\<lambda>item. id_h item = ident) historyList
      in if index > - 1 then historyList[nat index := history] else historyList)"

text \<open>\<^verbatim>\<open>delete_chat_history\<close> (lines 388 to 395).\<close>

definition delete_chat_history :: "ChatHistory list \<Rightarrow> string \<Rightarrow> ChatHistory list" where
  "delete_chat_history historyList ident = filter (\<lambda>item. id_h item \<noteq> ident) historyList"


text \<open>
  Turn parity: the entries come in pairs, a user entry followed by an assistant entry.
\<close>

fun turn_parity :: "ChatHistory list \<Rightarrow> bool" where
  "turn_parity [] = True"
| "turn_parity [u] = False"
| "turn_parity (u # a # rest) = (role u = ''user'' \<and> role a = ''assistant'' \<and> turn_parity rest)"

subsection \<open>JSON documents and the object store\<close>

text \<open>
  The values that \<^verbatim>\<open>JSON.parse\<close> returns. An object is the list of its properties in
  their order, the keys being pairwise distinct. Numbers are integers (timestamps in
  seconds). \<open>JArrWith\<close> is an array that has own properties besides its elements:
  \<^verbatim>\<open>JSON.parse\<close> returns no such value, the assignment of a \<^verbatim>\<open>create_time\<close> to an array
  in \<^verbatim>\<open>get_chat_list\<close> makes one.
\<close>

datatype json =
    JNull
  | JBool bool
  | JNum int
  | JStr string
  | JArr "json list"
  | JObj "(string \<times> json) list"
  | JArrWith "json list" "(string \<times> json) list"

text \<open>What ends a run other than a returned value: a \<^verbatim>\<open>TypeError\<close> that is thrown.\<close>

datatype js_error = TypeError

text \<open>
  The numbers that the coercion \<^verbatim>\<open>ToNumber\<close> and the subtraction of the sort comparator
  work on: a finite number, an infinity or NaN. \<open>Number_minus\<close> is the operator \<^verbatim>\<open>-\<close> on
  numbers. The difference of two finite doubles is rounded, but it is zero only when
  they are equal and has the sign of the exact difference otherwise, and only the sign
  of the result is looked at. \<open>not_after\<close> is the test that the sort makes of a
  comparator result \<open>v\<close>: \<open>v\<close> is not greater than 0, where NaN counts as 0.
\<close>

datatype number = Finite real | PInfinity | NInfinity | NaN

fun Number_minus :: "number \<Rightarrow> number \<Rightarrow> number" where
  "Number_minus NaN y = NaN"
| "Number_minus x NaN = NaN"
| "Number_minus (Finite a) (Finite b) = Finite (a - b)"
| "Number_minus (Finite a) PInfinity = NInfinity"
| "Number_minus (Finite a) NInfinity = PInfinity"
| "Number_minus PInfinity PInfinity = NaN"
| "Number_minus PInfinity y = PInfinity"
| "Number_minus NInfinity NInfinity = NaN"
| "Number_minus NInfinity y = NInfinity"

fun not_after :: "number \<Rightarrow> bool" where
  "not_after (Finite r) = (r \<le> 0)"
| "not_after PInfinity = False"
| "not_after NInfinity = True"
| "not_after NaN = True"

text \<open>
  The collaborators of \<^verbatim>\<open>ChatService\<close> whose code is not among the sources at hand
  (\<^verbatim>\<open>pub\<close> of \<^verbatim>\<open>class/public\<close>) or is part of the platform (\<^verbatim>\<open>path.resolve\<close>,
  \<^verbatim>\<open>JSON.parse\<close>, \<^verbatim>\<open>JSON.stringify\<close>, the coercion of a string or of an object to a
  number) are parameters, collected in a record:
  \<^item> \<open>get_context_path\<close> is \<^verbatim>\<open>pub.get_context_path\<close>;
  \<^item> \<open>path_resolve\<close> is \<^verbatim>\<open>path.resolve\<close> with two arguments;
  \<^item> \<open>JSON_parse\<close> is \<^verbatim>\<open>JSON.parse\<close>, \<^term>\<open>None\<close> when it throws a SyntaxError;
  \<^item> \<open>JSON_stringify\<close> is \<^verbatim>\<open>JSON.stringify\<close>;
  \<^item> \<open>readdir\<close> is \<^verbatim>\<open>pub.readdir\<close>, the list of directories it returns;
  \<^item> \<open>stat_birthtime\<close> is \<^verbatim>\<open>pub.stat\<close>: \<^term>\<open>None\<close> when the result is falsy, otherwise
    the value of \<^verbatim>\<open>stat.birthtime.getTime()\<close>, in milliseconds;
  \<^item> \<open>StringToNumber\<close> is the number that a string is coerced to;
  \<^item> \<open>ObjectToNumber\<close> is the coercion of an array or an object to a number, through
    its primitive value, which throws a TypeError when the value has none.
\<close>

record environment =
  get_context_path :: "string \<Rightarrow> string"
  path_resolve :: "string \<Rightarrow> string \<Rightarrow> string"
  JSON_parse :: "string \<Rightarrow> json option"
  JSON_stringify :: "json \<Rightarrow> string"
  readdir :: "string \<Rightarrow> string list"
  stat_birthtime :: "string \<Rightarrow> int option"
  StringToNumber :: "string \<Rightarrow> number"
  ObjectToNumber :: "json \<Rightarrow> js_error + number"

text \<open>
  The files of the object store: the text of every file that exists, and the paths at
  which a write succeeds.
\<close>

record filesystem =
  files :: "string \<Rightarrow> string option"
  writable :: "string \<Rightarrow> bool"

text \<open>
  Modelled from the spec: \<^verbatim>\<open>pub.file_exists\<close>, \<^verbatim>\<open>pub.read_file\<close> and \<^verbatim>\<open>pub.write_file\<close> of
  \<^verbatim>\<open>class/public\<close>, which is not among the sources at hand. Section 4.A of the
  specification gives the object store the operations \<open>read(path)\<close>, a value or empty,
  and \<open>write(path, value)\<close>, which replaces the document at the path; section 7 names
  the failure of a write (\<open>storage_failure\<close>). A write that fails throws, which is
  \<^term>\<open>None\<close> here, and leaves the files as they were.
\<close>

definition file_exists :: "filesystem \<Rightarrow> string \<Rightarrow> bool" where
  "file_exists fs filePath = (files fs filePath \<noteq> None)"

definition read_file :: "filesystem \<Rightarrow> string \<Rightarrow> string" where
  "read_file fs filePath = (case files fs filePath of Some fileContent \<Rightarrow> fileContent | None \<Rightarrow> [])"

definition write_file :: "filesystem \<Rightarrow> string \<Rightarrow> string \<Rightarrow> filesystem option" where
  "write_file fs filePath fileContent =
     (if writable fs filePath then Some (fs\<lparr>files := (files fs)(filePath \<mapsto> fileContent)\<rparr>)
      else None)"

text \<open>\<^verbatim>\<open>getContextPath\<close>, \<^verbatim>\<open>getConfigFilePath\<close>, \<^verbatim>\<open>getHistoryFilePath\<close> (lines 57 to 79).\<close>

definition getContextPath :: "environment \<Rightarrow> string \<Rightarrow> string" where
  "getContextPath env uuid = get_context_path env uuid"

definition getConfigFilePath :: "environment \<Rightarrow> string \<Rightarrow> string" where
  "getConfigFilePath env uuid = path_resolve env (getContextPath env uuid) ''config.json''"

definition getHistoryFilePath :: "environment \<Rightarrow> string \<Rightarrow> string" where
  "getHistoryFilePath env uuid = path_resolve env (getContextPath env uuid) ''history.json''"

text \<open>
  \<^verbatim>\<open>readJsonFile\<close> (lines 86 to 105): the empty array when the file does not exist, when
  its content is empty and when \<^verbatim>\<open>JSON.parse\<close> throws.
\<close>

definition readJsonFile :: "environment \<Rightarrow> filesystem \<Rightarrow> string \<Rightarrow> json" where
  "readJsonFile env fs filePath =
     (if \<not> file_exists fs filePath then JArr []
      else (let fileContent = read_file fs filePath
            in if length fileContent = 0 then JArr []
               else (case JSON_parse env fileContent of
                       Some v \<Rightarrow> v
                     | None \<Rightarrow> JArr [])))"

text \<open>
  \<^verbatim>\<open>saveJsonFile\<close> (lines 112 to 120): an error of the write is caught and logged, and
  the files stay as they were.
\<close>

definition saveJsonFile :: "environment \<Rightarrow> filesystem \<Rightarrow> string \<Rightarrow> json \<Rightarrow> filesystem" where
  "saveJsonFile env fs filePath data =
     (case write_file fs filePath (JSON_stringify env data) of
        Some fs' \<Rightarrow> fs'
      | None \<Rightarrow> fs)"

text \<open>
  \<^verbatim>\<open>create_chat\<close> (lines 129 to 150). \<open>uuid\<close> is the result of \<^verbatim>\<open>pub.uuid()\<close> and \<open>now\<close>
  that of \<^verbatim>\<open>pub.time()\<close>; the title is \<^term>\<open>None\<close> when the argument is left out, and is
  then the empty string. The function returns the config and the files after the call.
\<close>

definition create_chat ::
  "environment \<Rightarrow> filesystem \<Rightarrow> string \<Rightarrow> int \<Rightarrow> string \<Rightarrow> string \<Rightarrow> string option
     \<Rightarrow> json \<times> filesystem" where
  "create_chat env fs uuid now model parameters title_arg =
     (let title0 = (case title_arg of Some t \<Rightarrow> t | None \<Rightarrow> []);
          title = (if length title0 > 18 then take 18 title0 else title0);
          contextConfig = JObj
            [(''model'', JStr model),
             (''title'', JStr title),
             (''parameters'', JStr parameters),
             (''contextPath'', JStr (getContextPath env uuid)),
             (''context_id'', JStr uuid),
             (''create_time'', JNum now)]
      in (contextConfig, saveJsonFile env fs (getConfigFilePath env uuid) contextConfig))"

text \<open>\<^verbatim>\<open>read_chat\<close> (lines 179 to 181) and \<^verbatim>\<open>read_history\<close> (lines 197 to 199).\<close>

definition read_chat :: "environment \<Rightarrow> filesystem \<Rightarrow> string \<Rightarrow> json" where
  "read_chat env fs uuid = readJsonFile env fs (getConfigFilePath env uuid)"

definition read_history :: "environment \<Rightarrow> filesystem \<Rightarrow> string \<Rightarrow> json" where
  "read_history env fs uuid = readJsonFile env fs (getHistoryFilePath env uuid)"

text \<open>
  \<^verbatim>\<open>Object.keys(v).length\<close>: a TypeError on null; no key on a boolean or a number; the
  indices of a string or an array; the property names of an object.
\<close>

fun Object_keys_length :: "json \<Rightarrow> js_error + nat" where
  "Object_keys_length JNull = Inl TypeError"
| "Object_keys_length (JBool b) = Inr 0"
| "Object_keys_length (JNum n) = Inr 0"
| "Object_keys_length (JStr s) = Inr (length s)"
| "Object_keys_length (JArr xs) = Inr (length xs)"
| "Object_keys_length (JObj kvs) = Inr (length (remdups (map fst kvs)))"
| "Object_keys_length (JArrWith xs kvs) = Inr (length xs + length (remdups (map fst kvs)))"

text \<open>
  The property read \<^verbatim>\<open>v[key]\<close> for a key that is no index and not \<^verbatim>\<open>length\<close>, on a value
  other than null: \<^term>\<open>None\<close> is \<^verbatim>\<open>undefined\<close>.
\<close>

fun get_prop :: "json \<Rightarrow> string \<Rightarrow> json option" where
  "get_prop (JObj kvs) key = map_of kvs key"
| "get_prop (JArrWith xs kvs) key = map_of kvs key"
| "get_prop v key = None"

text \<open>
  The assignment \<^verbatim>\<open>contextConfigObj.create_time = t\<close> (lines 235 and 237), reached only
  when the property is undefined. On an object and on an array it adds the property.
  The module is strict code, where the assignment to a property of a primitive value
  throws a TypeError.
\<close>

fun set_create_time :: "json \<Rightarrow> int \<Rightarrow> js_error + json" where
  "set_create_time (JObj kvs) t = Inr (JObj (kvs @ [(''create_time'', JNum t)]))"
| "set_create_time (JArr xs) t = Inr (JArrWith xs [(''create_time'', JNum t)])"
| "set_create_time (JArrWith xs kvs) t = Inr (JArrWith xs (kvs @ [(''create_time'', JNum t)]))"
| "set_create_time v t = Inl TypeError"

text \<open>
  \<^verbatim>\<open>ToNumber\<close> of the value of a property read, \<^term>\<open>None\<close> being \<^verbatim>\<open>undefined\<close>.
\<close>

fun ToNumber :: "environment \<Rightarrow> json option \<Rightarrow> js_error + number" where
  "ToNumber env None = Inr NaN"
| "ToNumber env (Some JNull) = Inr (Finite 0)"
| "ToNumber env (Some (JBool b)) = Inr (Finite (if b then 1 else 0))"
| "ToNumber env (Some (JNum n)) = Inr (Finite (of_int n))"
| "ToNumber env (Some (JStr s)) = Inr (StringToNumber env s)"
| "ToNumber env (Some v) = ObjectToNumber env v"

text \<open>
  \<^verbatim>\<open>Array.prototype.sort\<close> with a comparator. An error that the comparator throws ends
  the sort. The sort is stable, and with a consistent comparator its result is the one
  of inserting each element, from the last to the first, before the first element that
  it does not come after. With a comparator that is not consistent the language leaves
  the order to the implementation; the order here is still that of the insertion.
\<close>

fun insert_sorted ::
  "('a \<Rightarrow> 'a \<Rightarrow> js_error + number) \<Rightarrow> 'a \<Rightarrow> 'a list \<Rightarrow> js_error + 'a list" where
  "insert_sorted cmp x [] = Inr [x]"
| "insert_sorted cmp x (y # ys) =
     (case cmp x y of
        Inl e \<Rightarrow> Inl e
      | Inr v \<Rightarrow>
          if not_after v then Inr (x # y # ys)
          else (case insert_sorted cmp x ys of
                  Inl e \<Rightarrow> Inl e
                | Inr zs \<Rightarrow> Inr (y # zs)))"

fun Array_sort :: "('a \<Rightarrow> 'a \<Rightarrow> js_error + number) \<Rightarrow> 'a list \<Rightarrow> js_error + 'a list" where
  "Array_sort cmp [] = Inr []"
| "Array_sort cmp (x # xs) =
     (case Array_sort cmp xs of
        Inl e \<Rightarrow> Inl e
      | Inr ys \<Rightarrow> insert_sorted cmp x ys)"

text \<open>
  The comparator \<^verbatim>\<open>(a, b) => b.create_time - a.create_time\<close> of line 244: both operands
  are coerced to numbers, the left one first.
\<close>

definition compare_create_time :: "environment \<Rightarrow> json \<Rightarrow> json \<Rightarrow> js_error + number" where
  "compare_create_time env a b =
     (case ToNumber env (get_prop b ''create_time'') of
        Inl e \<Rightarrow> Inl e
      | Inr nb \<Rightarrow>
          (case ToNumber env (get_prop a ''create_time'') of
             Inl e \<Rightarrow> Inl e
           | Inr na \<Rightarrow> Inr (Number_minus nb na)))"

text \<open>
  \<^verbatim>\<open>get_chat_list\<close> (lines 214 to 246). \<open>collect_contexts\<close> is the loop over the
  directories, with \<open>contextList\<close> as accumulator.
\<close>

fun collect_contexts ::
  "environment \<Rightarrow> filesystem \<Rightarrow> string list \<Rightarrow> json list \<Rightarrow> js_error + json list" where
  "collect_contexts env fs [] contextList = Inr contextList"
| "collect_contexts env fs (dir # dirs) contextList =
     (let configFilePath = path_resolve env dir ''config.json'';
          contextConfigObj = readJsonFile env fs configFilePath
      in case Object_keys_length contextConfigObj of
           Inl e \<Rightarrow> Inl e
         | Inr n \<Rightarrow>
             if n = 0 then collect_contexts env fs dirs contextList
             else (case (if get_prop contextConfigObj ''create_time'' = None
                         then set_create_time contextConfigObj
                                (case stat_birthtime env configFilePath of
                                   Some ms \<Rightarrow> ms div 1000
                                 | None \<Rightarrow> 0)
                         else Inr contextConfigObj) of
                     Inl e \<Rightarrow> Inl e
                   | Inr obj \<Rightarrow> collect_contexts env fs dirs (contextList @ [obj])))"

definition get_chat_list :: "environment \<Rightarrow> filesystem \<Rightarrow> js_error + json list" where
  "get_chat_list env fs =
     (let contextPath = getContextPath env [];
          contextDirList = readdir env contextPath
      in case collect_contexts env fs contextDirList [] of
           Inl e \<Rightarrow> Inl e
         | Inr contextList \<Rightarrow> Array_sort (compare_create_time env) contextList)"

subsection \<open>Measures used in the statements\<close>

text \<open>
  The number of characters of the current message and of a list of stored entries, and
  the number of characters of an assembled context.
\<close>

definition context_chars :: "ChatContext \<Rightarrow> ChatHistory list \<Rightarrow> int" where
  "context_chars chatContext xs =
     int (length (content_c chatContext)) + sum_list (map (\<lambda>item. int (length (content item))) xs)"

definition content_chars :: "ContextItem list \<Rightarrow> int" where
  "content_chars items = sum_list (map (\<lambda>i. int (length (item_content i))) items)"

text \<open>
  The two entries that \<^verbatim>\<open>save_chat_history\<close> makes of its arguments: the entry of the
  user with its new id and its token count, and the entry of the assistant with its
  content replaced.
\<close>

definition saved_user :: "string \<Rightarrow> ChatHistory \<Rightarrow> ChatHistory" where
  "saved_user new_id history = history\<lparr>id_h := new_id, tokens := int (length (content history))\<rparr>"

definition saved_assistant :: "string \<Rightarrow> ChatHistory \<Rightarrow> ChatHistory" where
  "saved_assistant interrupted historyRes = historyRes\<lparr>content := interrupted\<rparr>"

text \<open>
  A file that \<^verbatim>\<open>readJsonFile\<close> cannot read a document from: it is missing, it is empty,
  or its text is no JSON.
\<close>

definition unreadable :: "environment \<Rightarrow> filesystem \<Rightarrow> string \<Rightarrow> bool" where
  "unreadable env fs filePath =
     (case files fs filePath of
        None \<Rightarrow> True
      | Some fileContent \<Rightarrow> fileContent = [] \<or> JSON_parse env fileContent = None)"

text \<open>The config document of a conversation directory, as \<^verbatim>\<open>get_chat_list\<close> reads it.\<close>

definition config_at :: "environment \<Rightarrow> filesystem \<Rightarrow> string \<Rightarrow> json" where
  "config_at env fs dir = readJsonFile env fs (path_resolve env dir ''config.json'')"

text \<open>
  The \<^verbatim>\<open>create_time\<close> of a listed config when it is a number, and whether it is one.
\<close>

fun has_number_create_time :: "json \<Rightarrow> bool" where
  "has_number_create_time v = (case get_prop v ''create_time'' of Some (JNum t) \<Rightarrow> True | _ \<Rightarrow> False)"

fun number_create_time :: "json \<Rightarrow> int" where
  "number_create_time v = (case get_prop v ''create_time'' of Some (JNum t) \<Rightarrow> t | _ \<Rightarrow> 0)"

text \<open>
  The documents that the statement about \<^verbatim>\<open>get_chat_list\<close> covers: every document but
  null, a non-empty string, and an object whose \<^verbatim>\<open>create_time\<close> is no number. Among them
  are the objects without \<^verbatim>\<open>create_time\<close>, the arrays, and the empty array that
  \<^verbatim>\<open>readJsonFile\<close> returns for an unreadable file.
\<close>

fun config_document :: "json \<Rightarrow> bool" where
  "config_document (JObj kvs) =
     (case map_of kvs ''create_time'' of None \<Rightarrow> True | Some (JNum t) \<Rightarrow> True | Some _ \<Rightarrow> False)"
| "config_document (JArrWith xs kvs) =
     (case map_of kvs ''create_time'' of None \<Rightarrow> True | Some (JNum t) \<Rightarrow> True | Some _ \<Rightarrow> False)"
| "config_document (JArr xs) = True"
| "config_document (JStr s) = (s = [])"
| "config_document (JBool b) = True"
| "config_document (JNum n) = True"
| "config_document JNull = False"

text \<open>A document is non-empty when it has at least one key.\<close>

definition nonempty_document :: "json \<Rightarrow> bool" where
  "nonempty_document v = (Object_keys_length v \<noteq> Inr 0)"

text \<open>
  The creation time of a file in whole seconds, or 0 when the file cannot be stat'ed, and
  the config of a directory as the list shows it: with that time as \<^verbatim>\<open>create_time\<close> when
  the document has none.
\<close>

definition file_seconds :: "environment \<Rightarrow> string \<Rightarrow> int" where
  "file_seconds env filePath =
     (case stat_birthtime env filePath of Some ms \<Rightarrow> ms div 1000 | None \<Rightarrow> 0)"

definition listed_config :: "environment \<Rightarrow> filesystem \<Rightarrow> string \<Rightarrow> json" where
  "listed_config env fs dir =
     (case config_at env fs dir of
        JObj kvs \<Rightarrow>
          (if map_of kvs ''create_time'' = None
           then JObj (kvs @ [(''create_time'',
                  JNum (file_seconds env (path_resolve env dir ''config.json'')))])
           else JObj kvs)
      | JArr xs \<Rightarrow>
          JArrWith xs [(''create_time'',
             JNum (file_seconds env (path_resolve env dir ''config.json'')))]
      | JArrWith xs kvs \<Rightarrow>
          (if map_of kvs ''create_time'' = None
           then JArrWith xs (kvs @ [(''create_time'',
                  JNum (file_seconds env (path_resolve env dir ''config.json'')))])
           else JArrWith xs kvs)
      | v \<Rightarrow> v)"

subsection \<open>Concrete entries for the examples\<close>

definition example_entry :: "string \<Rightarrow> string \<Rightarrow> string \<Rightarrow> int \<Rightarrow> ChatHistory" where
  "example_entry ident r c tk =
     \<lparr>id_h = ident, reasoning = [], role = r, content = c, images = [], tool_calls = [],
      created_at = [], create_time = 0, stat = [], tokens = tk, search_result = [],
      search_type = None, search_query = None\<rparr>"

definition example_context :: "string \<Rightarrow> ChatContext" where
  "example_context c = \<lparr>role_c = ''user'', content_c = c, images_c = [], tool_calls_c = []\<rparr>"

definition example_history :: "ChatHistory list" where
  "example_history =
     [example_entry ''u1'' ''user'' ''abc'' 3, example_entry ''a1'' ''assistant'' ''defg'' 4]"

definition example_user :: ChatHistory where
  "example_user = example_entry [] ''user'' ''hi'' 0"



definition example_assistant :: ChatHistory where
  "example_assistant = example_entry ''r1'' ''assistant'' ''he'' 0"

text \<open>
  A store with five conversation directories: \<open>c1\<close> has a config with a creation time,
  \<open>c2\<close> a config without one, the config of \<open>c3\<close> is no JSON, \<open>c4\<close> has no config file
  and the config file of \<open>c5\<close> is empty. The texts are abbreviated (no quotation marks),
  and \<open>example_texts\<close> lists the texts that parse, each with its value. The coercions
  to a number are given as far as the examples use them: the empty string is 0, a string
  that is no numeric literal (as \<open>x\<close>) is NaN, and so is an object.
\<close>

definition example_first :: json where
  "example_first = JObj [(''title'', JStr ''first''), (''create_time'', JNum 100)]"

definition example_second :: json where
  "example_second = JObj [(''title'', JStr ''second'')]"

definition example_created :: json where
  "example_created = JObj
     [(''model'', JStr ''llama3''),
      (''title'', JStr ''a title longer tha''),
      (''parameters'', JStr ''8b''),
      (''contextPath'', JStr ''ctx/c9''),
      (''context_id'', JStr ''c9''),
      (''create_time'', JNum 1700000000)]"

definition example_texts :: "(string \<times> json) list" where
  "example_texts =
     [(''{title:first,create_time:100}'', example_first),
      (''{title:second}'', example_second),
      (''{model:llama3,title:a title longer tha,parameters:8b,create_time:1700000000}'',
       example_created),
      (''null'', JNull),
      (''hello'', JStr ''hello''),
      (''[7]'', JArr [JNum 7]),
      (''{create_time:1}'', JObj [(''create_time'', JNum 1)]),
      (''{create_time:x}'', JObj [(''create_time'', JStr ''x'')]),
      (''{create_time:2}'', JObj [(''create_time'', JNum 2)])]"

definition example_env :: environment where
  "example_env =
     \<lparr>get_context_path = (\<lambda>uuid. ''ctx/'' @ uuid),
      path_resolve = (\<lambda>dir file. dir @ ''/'' @ file),
      JSON_parse = map_of example_texts,
      JSON_stringify = (\<lambda>v. case find (\<lambda>(s, d). d = v) example_texts of
                                Some (s, d) \<Rightarrow> s | None \<Rightarrow> ''null''),
      readdir = (\<lambda>p. [''ctx/c1'', ''ctx/c2'', ''ctx/c3'', ''ctx/c4'', ''ctx/c5'']),
      stat_birthtime = (\<lambda>p. if p = ''ctx/c2/config.json'' then Some 250999 else None),
      StringToNumber = (\<lambda>s. if s = [] then Finite 0 else NaN),
      ObjectToNumber = (\<lambda>v. Inr NaN)\<rparr>"

definition example_fs :: filesystem where
  "example_fs =
     \<lparr>files = [''ctx/c1/config.json'' \<mapsto> ''{title:first,create_time:100}'',
               ''ctx/c2/config.json'' \<mapsto> ''{title:second}'',
               ''ctx/c3/config.json'' \<mapsto> ''{title:'',
               ''ctx/c5/config.json'' \<mapsto> []],
      writable = (\<lambda>p. True)\<rparr>"

definition example_readonly :: filesystem where
  "example_readonly = example_fs\<lparr>writable := (\<lambda>p. False)\<rparr>"

text \<open>
  The same store with more directories: the config of \<open>c6\<close> is the text \<open>null\<close>, that of
  \<open>c7\<close> a JSON string, that of \<open>c8\<close> the array \<open>[7]\<close>, and those of \<open>d1\<close>, \<open>d2\<close>, \<open>d3\<close>
  are objects with the \<open>create_time\<close> 1, the string \<open>x\<close> and 2. Four listings of it
  follow.
\<close>

definition example_odd_fs :: filesystem where
  "example_odd_fs =
     \<lparr>files = [''ctx/c1/config.json'' \<mapsto> ''{title:first,create_time:100}'',
               ''ctx/c2/config.json'' \<mapsto> ''{title:second}'',
               ''ctx/c3/config.json'' \<mapsto> ''{title:'',
               ''ctx/c6/config.json'' \<mapsto> ''null'',
               ''ctx/c7/config.json'' \<mapsto> ''hello'',
               ''ctx/c8/config.json'' \<mapsto> ''[7]'',
               ''ctx/d1/config.json'' \<mapsto> ''{create_time:1}'',
               ''ctx/d2/config.json'' \<mapsto> ''{create_time:x}'',
               ''ctx/d3/config.json'' \<mapsto> ''{create_time:2}''],
      writable = (\<lambda>p. True)\<rparr>"

definition example_env_array :: environment where
  "example_env_array = example_env\<lparr>readdir := (\<lambda>p. [''ctx/c8'', ''ctx/c1'', ''ctx/c2'', ''ctx/c3''])\<rparr>"

definition example_env_null :: environment where
  "example_env_null = example_env\<lparr>readdir := (\<lambda>p. [''ctx/c1'', ''ctx/c6''])\<rparr>"

definition example_env_string :: environment where
  "example_env_string = example_env\<lparr>readdir := (\<lambda>p. [''ctx/c1'', ''ctx/c7''])\<rparr>"

definition example_env_mixed :: environment where
  "example_env_mixed = example_env\<lparr>readdir := (\<lambda>p. [''ctx/d1'', ''ctx/d2'', ''ctx/d3''])\<rparr>"

section \<open>Basic facts\<close>

lemma Math_round_half: "Math_round (of_int n * 0.5) = (n + 1) div 2"
proof -
  have "(of_int n * 0.5 + 1 / 2 :: real) = of_int (n + 1) / of_int 2"
    by (simp add: field_simps)
  then have "Math_round (of_int n * 0.5) = \<lfloor>(of_int (n + 1) / of_int 2 :: real)\<rfloor>"
    by (simp only: Math_round_def)
  also have "\<dots> = (n + 1) div 2"
    by (rule floor_divide_of_int_eq)
  finally show ?thesis .
qed

lemma historyMaxContextLength_eq: "historyMaxContextLength n = (n + 1) div 2"
  by (simp only: historyMaxContextLength_def Math_round_half)

lemma findIndex_ge: "- 1 \<le> findIndex P xs"
  by (induction xs) (auto simp: Let_def)

lemma findIndex_lt_length: "findIndex P xs < int (length xs)"
  by (induction xs) (auto simp: Let_def)

lemma findIndex_absent: "(findIndex P xs = - 1) = (\<forall>x\<in>set xs. \<not> P x)"
proof (induction xs)
  case Nil
  then show ?case by simp
next
  case (Cons x xs)
  have "- 1 \<le> findIndex P xs" by (rule findIndex_ge)
  with Cons.IH show ?case
    by (auto simp: Let_def)
qed

lemma findIndex_found: "(findIndex P xs > - 1) = (\<exists>x\<in>set xs. P x)"
  using findIndex_absent [of P xs] findIndex_ge [of P xs] by auto

lemma take_findIndex:
  "findIndex P xs > - 1 \<Longrightarrow> take (nat (findIndex P xs)) xs = takeWhile (\<lambda>x. \<not> P x) xs"
proof (induction xs)
  case Nil
  then show ?case by simp
next
  case (Cons x xs)
  show ?case
  proof (cases "P x")
    case True
    then show ?thesis by simp
  next
    case False
    with Cons.prems have found: "findIndex P xs > - 1"
      by (simp add: Let_def split: if_splits)
    then have "nat (findIndex P xs + 1) = Suc (nat (findIndex P xs))"
      by simp
    with False found Cons.IH show ?thesis
      by (simp add: Let_def)
  qed
qed

lemma findIndex_nth: "findIndex P xs > - 1 \<Longrightarrow> P (xs ! nat (findIndex P xs))"
proof (induction xs)
  case Nil
  then show ?case by simp
next
  case (Cons x xs)
  show ?case
  proof (cases "P x")
    case True
    then show ?thesis by simp
  next
    case False
    with Cons.prems have found: "findIndex P xs > - 1"
      by (simp add: Let_def split: if_splits)
    then have "nat (findIndex P xs + 1) = Suc (nat (findIndex P xs))"
      by simp
    with False found Cons.IH show ?thesis
      by (simp add: Let_def)
  qed
qed

lemma shift_oldest_within: "t \<le> mx \<Longrightarrow> shift_oldest w mx t xs = (t, xs)"
  by (cases xs) simp_all

lemma shift_oldest_drop: "\<exists>k\<le>length xs. snd (shift_oldest w mx t xs) = drop k xs"
proof (induction xs arbitrary: t)
  case Nil
  then show ?case by simp
next
  case (Cons x xs)
  show ?case
  proof (cases "t > mx")
    case True
    from Cons.IH [of "t - w x"] obtain k
      where "k \<le> length xs" "snd (shift_oldest w mx (t - w x) xs) = drop k xs"
      by blast
    with True have "Suc k \<le> length (x # xs) \<and> snd (shift_oldest w mx t (x # xs)) = drop (Suc k) (x # xs)"
      by simp
    then show ?thesis by blast
  next
    case False
    then have "snd (shift_oldest w mx t (x # xs)) = drop 0 (x # xs)"
      by simp
    then show ?thesis by blast
  qed
qed

lemma foldl_add_sum_list: "foldl (\<lambda>t x. t + f x) a xs = a + sum_list (map f xs)"
  for a :: int
  by (induction xs arbitrary: a) auto

lemma shift_oldest_char:
  "\<exists>k\<le>length xs.
     shift_oldest w mx t xs = (t - sum_list (map w (take k xs)), drop k xs) \<and>
     (\<forall>j<k. t - sum_list (map w (take j xs)) > mx) \<and>
     (k = length xs \<or> t - sum_list (map w (take k xs)) \<le> mx)"
proof (induction xs arbitrary: t)
  case Nil
  then show ?case by simp
next
  case (Cons x xs)
  show ?case
  proof (cases "t > mx")
    case True
    from Cons.IH [of "t - w x"] obtain k where k: "k \<le> length xs"
      and run: "shift_oldest w mx (t - w x) xs = (t - w x - sum_list (map w (take k xs)), drop k xs)"
      and before: "\<forall>j<k. t - w x - sum_list (map w (take j xs)) > mx"
      and stop: "k = length xs \<or> t - w x - sum_list (map w (take k xs)) \<le> mx"
      by blast
    have "\<forall>j<Suc k. t - sum_list (map w (take j (x # xs))) > mx"
    proof (intro allI impI)
      fix j assume "j < Suc k"
      show "t - sum_list (map w (take j (x # xs))) > mx"
      proof (cases j)
        case 0
        with True show ?thesis by simp
      next
        case (Suc i)
        with \<open>j < Suc k\<close> before have "t - w x - sum_list (map w (take i xs)) > mx" by simp
        with Suc show ?thesis by (simp add: algebra_simps)
      qed
    qed
    moreover from True run have "shift_oldest w mx t (x # xs) =
        (t - sum_list (map w (take (Suc k) (x # xs))), drop (Suc k) (x # xs))"
      by (simp add: algebra_simps)
    moreover from stop have "Suc k = length (x # xs) \<or> t - sum_list (map w (take (Suc k) (x # xs))) \<le> mx"
      by (auto simp: algebra_simps)
    moreover from k have "Suc k \<le> length (x # xs)" by simp
    ultimately show ?thesis by blast
  next
    case False
    then have "shift_oldest w mx t (x # xs) = (t - sum_list (map w (take 0 (x # xs))), drop 0 (x # xs))"
      by simp
    moreover from False have "t - sum_list (map w (take 0 (x # xs))) \<le> mx" by simp
    ultimately show ?thesis by (metis le0 not_less_zero)
  qed
qed

lemma sum_list_take_drop:
  "sum_list (map w xs) = sum_list (map w (take k xs)) + (sum_list (map w (drop k xs)) :: int)"
proof -
  have "sum_list (map w (take k xs @ drop k xs)) = sum_list (map w (take k xs)) + sum_list (map w (drop k xs))"
    by (simp only: map_append sum_list_append)
  then show ?thesis by simp
qed

lemma build_chat_history_alt:
  "build_chat_history H c n =
     map role_content (snd (shift_oldest (\<lambda>item. int (length (content item)))
        (historyMaxContextLength n) (context_chars c H) H)) @ [as_item c]"
  by (simp add: build_chat_history_def Let_def context_chars_def foldl_add_sum_list)

lemma content_chars_build:
  "content_chars (map role_content xs @ [as_item c]) = context_chars c xs"
  by (simp add: content_chars_def context_chars_def role_content_def as_item_def comp_def)

lemma build_chat_history_chars_max:
  "content_chars (build_chat_history H c n)
     \<le> max (historyMaxContextLength n) (int (length (content_c c)))"
proof -
  from shift_oldest_char [of H "\<lambda>item. int (length (content item))"
      "historyMaxContextLength n" "context_chars c H"]
  obtain k where "k \<le> length H"
    and run: "shift_oldest (\<lambda>item. int (length (content item))) (historyMaxContextLength n)
        (context_chars c H) H =
      (context_chars c H - sum_list (map (\<lambda>item. int (length (content item))) (take k H)), drop k H)"
    and stop: "k = length H \<or>
      context_chars c H - sum_list (map (\<lambda>item. int (length (content item))) (take k H))
        \<le> historyMaxContextLength n"
    by blast
  have rest: "context_chars c H - sum_list (map (\<lambda>item. int (length (content item))) (take k H))
      = context_chars c (drop k H)"
    using sum_list_take_drop [of "\<lambda>item. int (length (content item))" H k]
    by (simp add: context_chars_def)
  have eq: "content_chars (build_chat_history H c n) = context_chars c (drop k H)"
    by (simp add: build_chat_history_alt run content_chars_build)
  from stop show ?thesis
  proof
    assume "k = length H"
    then show ?thesis by (simp add: eq context_chars_def)
  next
    assume "context_chars c H - sum_list (map (\<lambda>item. int (length (content item))) (take k H))
        \<le> historyMaxContextLength n"
    then show ?thesis by (simp add: eq rest)
  qed
qed

subsection \<open>Facts about the history operations\<close>

lemma turn_parity_iff:
  "turn_parity H =
     (even (length H) \<and> (\<forall>i<length H. role (H ! i) = (if even i then ''user'' else ''assistant'')))"
proof (induction H rule: turn_parity.induct)
  case 1
  then show ?case by simp
next
  case (2 u)
  then show ?case by simp
next
  case (3 u a rest)
  have "(\<forall>i<Suc (Suc (length rest)). role ((u # a # rest) ! i) = (if even i then ''user'' else ''assistant''))
      = (role u = ''user'' \<and> role a = ''assistant'' \<and>
         (\<forall>i<length rest. role (rest ! i) = (if even i then ''user'' else ''assistant'')))"
    (is "?L = ?R")
  proof
    assume L: ?L
    have "role ((u # a # rest) ! 0) = ''user''" using L by (metis even_zero zero_less_Suc)
    moreover have "role ((u # a # rest) ! 1) = ''assistant''"
      using L [rule_format, of 1] by simp
    moreover have "\<forall>i<length rest. role (rest ! i) = (if even i then ''user'' else ''assistant'')"
    proof (intro allI impI)
      fix i assume "i < length rest"
      then have "Suc (Suc i) < Suc (Suc (length rest))" by simp
      from L [rule_format, OF this] show "role (rest ! i) = (if even i then ''user'' else ''assistant'')"
        by simp
    qed
    ultimately show ?R by simp
  next
    assume R: ?R
    show ?L
    proof (intro allI impI)
      fix i assume i: "i < Suc (Suc (length rest))"
      show "role ((u # a # rest) ! i) = (if even i then ''user'' else ''assistant'')"
      proof (cases i)
        case 0
        with R show ?thesis by simp
      next
        case (Suc j)
        show ?thesis
        proof (cases j)
          case 0
          with Suc R show ?thesis by simp
        next
          case (Suc k)
          with \<open>i = Suc j\<close> i have "k < length rest" by simp
          with R have "role (rest ! k) = (if even k then ''user'' else ''assistant'')" by blast
          with Suc \<open>i = Suc j\<close> show ?thesis by simp
        qed
      qed
    qed
  qed
  then have "turn_parity (u # a # rest) =
      (even (length rest) \<and> (\<forall>i<Suc (Suc (length rest)).
         role ((u # a # rest) ! i) = (if even i then ''user'' else ''assistant'')))"
    using 3 by (simp only: turn_parity.simps) blast
  then show ?case by (simp only: length_Cons even_Suc_Suc_iff)
qed

lemma turn_parity_even: "turn_parity H \<Longrightarrow> even (length H)"
  by (simp add: turn_parity_iff)

lemma turn_parity_append_pair:
  "turn_parity H \<Longrightarrow> turn_parity (H @ [u, a]) = (role u = ''user'' \<and> role a = ''assistant'')"
  by (induction H rule: turn_parity.induct) simp_all

lemma turn_parity_take_snoc:
  assumes "turn_parity H" and "odd k" and "k < length H"
  shows "turn_parity (take k H @ [a]) = (role a = ''assistant'')"
  using assms
proof (induction H arbitrary: k rule: turn_parity.induct)
  case 1
  then show ?case by simp
next
  case (2 u)
  then show ?case by simp
next
  case (3 u a' rest)
  from \<open>odd k\<close> obtain j where k: "k = Suc j" and j: "even j" by (cases k) auto
  show ?case
  proof (cases j)
    case 0
    with k 3 show ?thesis by simp
  next
    case (Suc i)
    with j k 3 show ?thesis by simp
  qed
qed

lemma turn_parity_update:
  assumes "turn_parity H" and "i < length H" and "role h = role (H ! i)"
  shows "turn_parity (H[i := h])"
  using assms by (simp add: turn_parity_iff nth_list_update)

lemma save_user_entry:
  "(h\<lparr>id_h := nid\<rparr>)\<lparr>tokens := (if content (h\<lparr>id_h := nid\<rparr>) \<noteq> []
        then int (length (content (h\<lparr>id_h := nid\<rparr>))) else 0)\<rparr> = saved_user nid h"
  by (simp add: saved_user_def)

lemma save_chat_history_alt:
  "save_chat_history nid tok H h r n rid =
     snd (shift_oldest tokens (historyMaxContextLength n) (int (length (content h)))
       ((if truthy rid
         then (if findIndex (\<lambda>item. Some (id_h item) = rid) H > - 1
               then take (nat (findIndex (\<lambda>item. Some (id_h item) = rid) H)) H else H)
         else H @ [saved_user nid h]) @ [saved_assistant tok r]))"
  by (simp add: save_chat_history_def Let_def save_user_entry saved_assistant_def)
    (simp add: saved_user_def)

lemma regenerate_found_save:
  assumes "X \<noteq> []" and "\<exists>e\<in>set H. id_h e = X"
  shows "save_chat_history nid tok H h r n (Some X) =
     snd (shift_oldest tokens (historyMaxContextLength n) (int (length (content h)))
       (takeWhile (\<lambda>e. id_h e \<noteq> X) H @ [saved_assistant tok r]))"
proof -
  from assms(2) have found: "findIndex (\<lambda>item. id_h item = X) H > - 1"
    by (simp add: findIndex_found)
  from take_findIndex [OF found]
  have "take (nat (findIndex (\<lambda>item. id_h item = X) H)) H = takeWhile (\<lambda>e. id_h e \<noteq> X) H" .
  with found assms(1) show ?thesis
    by (simp add: save_chat_history_alt)
qed

lemma historyMax_4096: "historyMaxContextLength 4096 = 2048"
  by (simp add: historyMaxContextLength_eq)

lemma example_save_regenerate:
  "save_chat_history ''n1'' ''INTERRUPTED'' example_history example_user example_assistant 4096
      (Some ''a1'')
    = [example_entry ''u1'' ''user'' ''abc'' 3, example_entry ''r1'' ''assistant'' ''INTERRUPTED'' 0]"
  by (simp add: save_chat_history_alt historyMax_4096 example_history_def example_user_def
      example_assistant_def example_entry_def saved_assistant_def)

lemma save_chat_history_within:
  assumes "int (length (content h)) \<le> historyMaxContextLength n"
  shows "save_chat_history nid tok H h r n rid =
       (if truthy rid
         then (if findIndex (\<lambda>item. Some (id_h item) = rid) H > - 1
               then take (nat (findIndex (\<lambda>item. Some (id_h item) = rid) H)) H else H)
         else H @ [saved_user nid h]) @ [saved_assistant tok r]"
  using assms by (simp only: save_chat_history_alt shift_oldest_within snd_conv)

lemma example_save_append:
  "save_chat_history ''n1'' ''INTERRUPTED'' [] example_user example_assistant 4096 None
    = [example_entry ''n1'' ''user'' ''hi'' 2, example_entry ''r1'' ''assistant'' ''INTERRUPTED'' 0]"
  by (simp add: save_chat_history_alt historyMax_4096 example_user_def
      example_assistant_def example_entry_def saved_assistant_def saved_user_def)

lemma filter_id_distinct:
  "distinct (map f xs) \<Longrightarrow> \<exists>e\<in>set xs. f e = a \<Longrightarrow> length (filter (\<lambda>e. f e = a) xs) = 1"
proof (induction xs)
  case Nil
  then show ?case by simp
next
  case (Cons x xs)
  show ?case
  proof (cases "f x = a")
    case True
    with Cons.prems(1) have "\<forall>e\<in>set xs. f e \<noteq> a" by (auto simp: image_iff)
    then have "filter (\<lambda>e. f e = a) xs = []" by (simp add: filter_empty_conv)
    with True show ?thesis by simp
  next
    case False
    with Cons show ?thesis by auto
  qed
qed

lemma delete_chat_history_length:
  assumes "distinct (map id_h H)" and "\<exists>e\<in>set H. id_h e = ident"
  shows "Suc (length (delete_chat_history H ident)) = length H"
proof -
  have "length (filter (\<lambda>e. id_h e = ident) H) + length (filter (\<lambda>e. \<not> id_h e = ident) H) = length H"
    by (rule sum_length_filter_compl)
  with filter_id_distinct [OF assms] show ?thesis
    by (simp add: delete_chat_history_def)
qed

lemma delete_chat_history_absent:
  "\<forall>e\<in>set H. id_h e \<noteq> ident \<Longrightarrow> delete_chat_history H ident = H"
  by (simp add: delete_chat_history_def)

lemma set_chat_history_parity:
  assumes "turn_parity H" and "\<forall>e\<in>set H. id_h e = ident \<longrightarrow> role e = role h'"
  shows "turn_parity (set_chat_history H ident h')"
proof (cases "findIndex (\<lambda>item. id_h item = ident) H > - 1")
  case True
  let ?i = "nat (findIndex (\<lambda>item. id_h item = ident) H)"
  from True findIndex_lt_length [of "\<lambda>item. id_h item = ident" H] have lt: "?i < length H"
    by simp
  from findIndex_nth [OF True] have "id_h (H ! ?i) = ident" .
  with lt assms(2) have "role h' = role (H ! ?i)" by (metis nth_mem)
  from turn_parity_update [OF assms(1) lt this] True show ?thesis
    by (simp add: set_chat_history_def)
next
  case False
  with assms(1) show ?thesis by (simp add: set_chat_history_def)
qed



lemma example_history_facts:
  "turn_parity example_history"
  "distinct (map id_h example_history)"
  "\<exists>e\<in>set example_history. id_h e = ''a1''"
  "odd (length (takeWhile (\<lambda>e. id_h e \<noteq> ''a1'') example_history))"
  "\<forall>e\<in>set example_history. id_h e \<noteq> ''zz''"
  "\<forall>e\<in>set example_history. id_h e = ''a1'' \<longrightarrow> role e = role example_assistant"
  by (simp_all add: example_history_def example_entry_def example_assistant_def)

subsection \<open>Facts about the object store and the conversation list\<close>

lemma readJsonFile_unreadable: "unreadable env fs p \<Longrightarrow> readJsonFile env fs p = JArr []"
  by (auto simp: unreadable_def readJsonFile_def file_exists_def read_file_def Let_def
      split: option.splits)

lemma collect_contexts_skip:
  "collect_contexts env fs dirs acc =
     collect_contexts env fs
       (filter (\<lambda>dir. \<not> unreadable env fs (path_resolve env dir ''config.json'')) dirs) acc"
proof (induction dirs arbitrary: acc)
  case Nil
  then show ?case by simp
next
  case (Cons dir dirs)
  show ?case
  proof (cases "unreadable env fs (path_resolve env dir ''config.json'')")
    case True
    then have "readJsonFile env fs (path_resolve env dir ''config.json'') = JArr []"
      by (rule readJsonFile_unreadable)
    with True Cons.IH [of acc] show ?thesis by simp
  next
    case False
    then show ?thesis
      by (simp add: Let_def Cons.IH split: sum.splits)
  qed
qed

lemma collect_contexts_all_unreadable:
  "\<forall>dir\<in>set dirs. unreadable env fs (path_resolve env dir ''config.json'') \<Longrightarrow>
     collect_contexts env fs dirs acc = Inr acc"
proof -
  assume "\<forall>dir\<in>set dirs. unreadable env fs (path_resolve env dir ''config.json'')"
  then have "filter (\<lambda>dir. \<not> unreadable env fs (path_resolve env dir ''config.json'')) dirs = []"
    by (simp add: filter_empty_conv)
  with collect_contexts_skip [of env fs dirs acc] show ?thesis by simp
qed

lemma ToNumber_readdir:
  "ToNumber (env\<lparr>readdir := r\<rparr>) v = ToNumber env v"
  by (cases "(env, v)" rule: ToNumber.cases) simp_all

lemma compare_create_time_readdir:
  "compare_create_time (env\<lparr>readdir := r\<rparr>) = compare_create_time env"
  by (intro ext) (auto simp: compare_create_time_def ToNumber_readdir split: sum.splits)

lemma compare_create_time_numbers:
  assumes "has_number_create_time a" and "has_number_create_time b"
  shows "compare_create_time env a b
     = Inr (Finite (of_int (number_create_time b) - of_int (number_create_time a)))"
  using assms
  by (auto simp: compare_create_time_def split: option.splits json.splits)

lemma insert_sorted_numbers:
  assumes "has_number_create_time x" and "\<forall>y\<in>set ys. has_number_create_time y"
  shows "insert_sorted (compare_create_time env) x ys
     = Inr (insort_key (\<lambda>c. - number_create_time c) x ys)"
  using assms(2)
proof (induction ys)
  case Nil
  then show ?case by simp
next
  case (Cons y ys)
  then have y: "has_number_create_time y" by simp
  from Cons have IH: "insert_sorted (compare_create_time env) x ys
     = Inr (insort_key (\<lambda>c. - number_create_time c) x ys)" by simp
  show ?case
    by (simp add: compare_create_time_numbers [OF assms(1) y] IH)
qed

lemma Array_sort_numbers:
  assumes "\<forall>c\<in>set xs. has_number_create_time c"
  shows "Array_sort (compare_create_time env) xs
     = Inr (sort_key (\<lambda>c. - number_create_time c) xs)"
  using assms
proof (induction xs)
  case Nil
  then show ?case by simp
next
  case (Cons x xs)
  then have IH: "Array_sort (compare_create_time env) xs
     = Inr (sort_key (\<lambda>c. - number_create_time c) xs)" by simp
  from Cons.prems have "\<forall>y\<in>set (sort_key (\<lambda>c. - number_create_time c) xs). has_number_create_time y"
    by simp
  from insert_sorted_numbers [OF _ this, of x env] Cons.prems show ?case
    by (simp add: IH)
qed

lemma sorted_wrt_descending:
  "sorted_wrt (\<lambda>a b. f a \<ge> f b) (sort_key (\<lambda>c. - f c) xs)" for f :: "'a \<Rightarrow> int"
proof -
  have "sorted (map (\<lambda>c. - f c) (sort_key (\<lambda>c. - f c) xs))"
    by (rule sorted_sort_key)
  then show ?thesis
    by (simp add: sorted_map)
qed

lemma listed_config_step:
  assumes "config_document (config_at env fs dir)"
  shows "collect_contexts env fs (dir # dirs) acc =
     (if nonempty_document (config_at env fs dir)
      then collect_contexts env fs dirs (acc @ [listed_config env fs dir])
      else collect_contexts env fs dirs acc)"
proof (cases "config_at env fs dir")
  case (JObj kvs)
  then have d: "readJsonFile env fs (path_resolve env dir ''config.json'') = JObj kvs"
    by (simp add: config_at_def)
  show ?thesis
    by (simp add: d Let_def JObj nonempty_document_def listed_config_def file_seconds_def)
next
  case (JArr xs)
  then have d: "readJsonFile env fs (path_resolve env dir ''config.json'') = JArr xs"
    by (simp add: config_at_def)
  show ?thesis
    by (simp add: d Let_def JArr nonempty_document_def listed_config_def file_seconds_def)
next
  case (JArrWith xs kvs)
  then have d: "readJsonFile env fs (path_resolve env dir ''config.json'') = JArrWith xs kvs"
    by (simp add: config_at_def)
  show ?thesis
    by (simp add: d Let_def JArrWith nonempty_document_def listed_config_def file_seconds_def)
qed (use assms in \<open>simp_all add: config_at_def nonempty_document_def listed_config_def\<close>)

lemma collect_contexts_listed:
  assumes "\<forall>dir\<in>set dirs. config_document (config_at env fs dir)"
  shows "collect_contexts env fs dirs acc =
     Inr (acc @ map (listed_config env fs)
                  (filter (\<lambda>dir. nonempty_document (config_at env fs dir)) dirs))"
  using assms
proof (induction dirs arbitrary: acc)
  case Nil
  then show ?case by simp
next
  case (Cons dir dirs)
  then have "config_document (config_at env fs dir)" by simp
  from listed_config_step [OF this] Cons show ?case by simp
qed

lemma listed_config_number:
  assumes "config_document (config_at env fs dir)" and "nonempty_document (config_at env fs dir)"
  shows "has_number_create_time (listed_config env fs dir)"
  using assms
  by (cases "config_at env fs dir")
    (auto simp: listed_config_def nonempty_document_def split: option.splits json.splits)

lemma listed_config_default:
  assumes "config_document (config_at env fs dir)" and "nonempty_document (config_at env fs dir)"
    and "get_prop (config_at env fs dir) ''create_time'' = None"
  shows "number_create_time (listed_config env fs dir)
     = file_seconds env (path_resolve env dir ''config.json'')"
  using assms
  by (cases "config_at env fs dir")
    (simp_all add: listed_config_def map_add_def nonempty_document_def)

lemma listed_config_present:
  assumes "get_prop (config_at env fs dir) ''create_time'' = Some v"
  shows "listed_config env fs dir = config_at env fs dir"
  using assms by (cases "config_at env fs dir") (simp_all add: listed_config_def)

lemma example_paths:
  "path_resolve example_env dir file = dir @ ''/'' @ file"
  "getContextPath example_env uuid = ''ctx/'' @ uuid"
  "readdir example_env p = [''ctx/c1'', ''ctx/c2'', ''ctx/c3'', ''ctx/c4'', ''ctx/c5'']"
  by (simp_all add: example_env_def getContextPath_def)

lemma example_configs:
  "config_at example_env example_fs ''ctx/c1'' = example_first"
  "config_at example_env example_fs ''ctx/c2'' = example_second"
  "config_at example_env example_fs ''ctx/c3'' = JArr []"
  "config_at example_env example_fs ''ctx/c4'' = JArr []"
  "config_at example_env example_fs ''ctx/c5'' = JArr []"
  by (simp_all add: config_at_def readJsonFile_def file_exists_def read_file_def Let_def
      example_env_def example_fs_def example_texts_def)

lemma example_odd_paths:
  "path_resolve example_env_array dir file = dir @ ''/'' @ file"
  "getContextPath example_env_array uuid = ''ctx/'' @ uuid"
  "readdir example_env_array p = [''ctx/c8'', ''ctx/c1'', ''ctx/c2'', ''ctx/c3'']"
  by (simp_all add: example_env_array_def example_env_def getContextPath_def)

lemma example_odd_configs:
  "config_at example_env_array example_odd_fs ''ctx/c1'' = example_first"
  "config_at example_env_array example_odd_fs ''ctx/c2'' = example_second"
  "config_at example_env_array example_odd_fs ''ctx/c3'' = JArr []"
  "config_at example_env_array example_odd_fs ''ctx/c8'' = JArr [JNum 7]"
  "config_at example_env_null example_odd_fs ''ctx/c6'' = JNull"
  "config_at example_env_string example_odd_fs ''ctx/c7'' = JStr ''hello''"
  by (simp_all add: config_at_def readJsonFile_def file_exists_def read_file_def Let_def
      example_env_array_def example_env_null_def example_env_string_def
      example_env_def example_odd_fs_def example_texts_def)

lemma readJsonFile_readdir:
  "readJsonFile (env\<lparr>readdir := r\<rparr>) fs p = readJsonFile env fs p"
  by (simp add: readJsonFile_def Let_def)

lemma example_odd_files:
  "readJsonFile example_env example_odd_fs ''ctx/c1/config.json'' = example_first"
  "readJsonFile example_env example_odd_fs ''ctx/c6/config.json'' = JNull"
  "readJsonFile example_env example_odd_fs ''ctx/c7/config.json'' = JStr ''hello''"
  "readJsonFile example_env example_odd_fs ''ctx/d1/config.json'' = JObj [(''create_time'', JNum 1)]"
  "readJsonFile example_env example_odd_fs ''ctx/d2/config.json'' = JObj [(''create_time'', JStr ''x'')]"
  "readJsonFile example_env example_odd_fs ''ctx/d3/config.json'' = JObj [(''create_time'', JNum 2)]"
  by (simp_all add: readJsonFile_def file_exists_def read_file_def Let_def
      example_env_def example_odd_fs_def example_texts_def)

lemma example_env_fields:
  "path_resolve example_env dir file = dir @ ''/'' @ file"
  "get_context_path example_env uuid = ''ctx/'' @ uuid"
  "StringToNumber example_env ''x'' = NaN"
  by (simp_all add: example_env_def)

lemma example_null_run: "get_chat_list example_env_null example_odd_fs = Inl TypeError"
  by (simp add: get_chat_list_def Let_def example_env_null_def example_env_fields getContextPath_def
      readJsonFile_readdir example_odd_files example_first_def)

lemma example_string_run: "get_chat_list example_env_string example_odd_fs = Inl TypeError"
  by (simp add: get_chat_list_def Let_def example_env_string_def example_env_fields getContextPath_def
      readJsonFile_readdir example_odd_files example_first_def)

lemma example_mixed_run:
  "get_chat_list example_env_mixed example_odd_fs
     = Inr [JObj [(''create_time'', JNum 1)],
            JObj [(''create_time'', JStr ''x'')],
            JObj [(''create_time'', JNum 2)]]"
  by (simp add: get_chat_list_def Let_def example_env_mixed_def example_env_fields getContextPath_def
      readJsonFile_readdir example_odd_files compare_create_time_def)

lemma example_create:
  "fst (create_chat example_env fs ''c9'' 1700000000 ''llama3'' ''8b''
          (Some ''a title longer than eighteen'')) = example_created"
  by (simp add: create_chat_def Let_def example_created_def example_paths)

lemma example_codec:
  "JSON_stringify example_env example_created
     = ''{model:llama3,title:a title longer tha,parameters:8b,create_time:1700000000}''"
  "JSON_parse example_env
     ''{model:llama3,title:a title longer tha,parameters:8b,create_time:1700000000}''
     = Some example_created"
  by (simp_all add: example_env_def example_texts_def example_created_def example_first_def
      example_second_def)

lemma example_unreadable:
  "unreadable example_env example_fs ''ctx/c3/config.json''"
  "unreadable example_env example_fs ''ctx/c4/config.json''"
  "unreadable example_env example_fs ''ctx/c5/config.json''"
  "\<not> unreadable example_env example_fs ''ctx/c1/config.json''"
  "\<not> unreadable example_env example_fs ''ctx/c2/config.json''"
  by (simp_all add: unreadable_def example_env_def example_fs_def example_texts_def)

section \<open>Context assembly\<close>

text \<open>
  Claim C4, as amended. The number of characters of the context that
  \<open>build_chat_history\<close> assembles (the sum of the lengths of the \<open>content\<close> fields of the
  returned list) is at most the larger of \<open>Math.round(0.5 * context_length)\<close> and the
  length of the current user content. Hence, for a context length that is not negative,
  it is at most \<open>Math.round(0.5 * context_length)\<close> plus the length of the current user
  content, and for an even context length that is not negative it is at most
  \<open>0.5 * context_length\<close> plus the length of the current user content.
\<close>

theorem build_chat_history_budget:
  "content_chars (build_chat_history H c n)
     \<le> max (historyMaxContextLength n) (int (length (content_c c))) \<and>
   (0 \<le> n \<longrightarrow> content_chars (build_chat_history H c n)
     \<le> historyMaxContextLength n + int (length (content_c c))) \<and>
   (0 \<le> n \<and> even n \<longrightarrow> real_of_int (content_chars (build_chat_history H c n))
     \<le> 0.5 * real_of_int n + real (length (content_c c)))"
proof (intro conjI impI)
  show m: "content_chars (build_chat_history H c n)
     \<le> max (historyMaxContextLength n) (int (length (content_c c)))"
    by (rule build_chat_history_chars_max)
  {
    assume "0 \<le> n"
    then have "0 \<le> historyMaxContextLength n"
      by (simp add: historyMaxContextLength_eq)
    with m show "content_chars (build_chat_history H c n)
       \<le> historyMaxContextLength n + int (length (content_c c))"
      by simp
  }
  {
    assume a: "0 \<le> n \<and> even n"
    then obtain m' where n: "n = 2 * m'" by (auto elim: evenE)
    then have r: "historyMaxContextLength n = m'"
      by (simp add: historyMaxContextLength_eq)
    from a n have "0 \<le> m'" by simp
    with m r have "content_chars (build_chat_history H c n) \<le> m' + int (length (content_c c))"
      by simp
    then have "real_of_int (content_chars (build_chat_history H c n))
        \<le> real_of_int (m' + int (length (content_c c)))"
      by (simp only: of_int_le_iff)
    with n show "real_of_int (content_chars (build_chat_history H c n))
       \<le> 0.5 * real_of_int n + real (length (content_c c))"
      by simp
  }
qed

theorem build_chat_history_budget_witness:
  "(0::int) \<le> 4 \<and> even (4::int) \<and>
   content_chars (build_chat_history example_history (example_context ''hi'') 4)
     \<le> max (historyMaxContextLength 4) (int (length (content_c (example_context ''hi'')))) \<and>
   real_of_int (content_chars (build_chat_history example_history (example_context ''hi'') 4))
     \<le> 0.5 * real_of_int 4 + real (length (content_c (example_context ''hi'')))"
  using build_chat_history_budget [of example_history "example_context ''hi''" 4]
  by simp

text \<open>
  The bound of claim C4 as it is stated, \<open>0.5 * context_length\<close> plus the length of the
  current user content, fails for an odd context length: with a context length of 3 the
  budget is \<open>Math.round(1.5) = 2\<close>, a stored entry of two characters is kept, and the
  assembled context has two characters, more than \<open>1.5 + 0\<close>.
\<close>

theorem build_chat_history_budget_counterexample:
  "\<not> real_of_int (content_chars (build_chat_history
         [example_entry ''u1'' ''user'' ''ab'' 2] (example_context '''') 3))
       \<le> 0.5 * real_of_int 3 + real (length (content_c (example_context '''')))"
  by (simp add: build_chat_history_alt historyMaxContextLength_eq context_chars_def content_chars_def
      role_content_def as_item_def example_entry_def example_context_def)

text \<open>
  Claim C5. \<open>build_chat_history\<close> returns a contiguous suffix of the stored history
  (the oldest entries are the ones dropped), each entry as an object that has the stored
  role and content and nothing else, in stored order, followed by the current user turn
  with its role, content, images and tool calls as last element, whatever the budget.
  The suffix is the one obtained by dropping the oldest entries first until the budget
  \<open>Math.round(0.5 * context_length)\<close>, which is \<open>(context_length + 1) div 2\<close>, holds or no
  entry is left: every shorter drop leaves more characters than the budget.
\<close>

theorem build_chat_history_suffix:
  "\<exists>k\<le>length H.
     build_chat_history H c n
       = map (\<lambda>e. \<lparr>item_role = role e, item_content = content e,
                     item_images = None, item_tool_calls = None\<rparr>) (drop k H)
         @ [\<lparr>item_role = role_c c, item_content = content_c c,
              item_images = Some (images_c c), item_tool_calls = Some (tool_calls_c c)\<rparr>] \<and>
     (\<forall>j<k. int (length (content_c c))
               + sum_list (map (\<lambda>e. int (length (content e))) (drop j H)) > (n + 1) div 2) \<and>
     (k = length H \<or>
      int (length (content_c c))
        + sum_list (map (\<lambda>e. int (length (content e))) (drop k H)) \<le> (n + 1) div 2)"
proof -
  let ?w = "\<lambda>item. int (length (content item))"
  let ?mx = "historyMaxContextLength n"
  let ?t = "context_chars c H"
  have rest: "?t - sum_list (map ?w (take j H))
      = int (length (content_c c)) + sum_list (map ?w (drop j H))" for j
    using sum_list_take_drop [of ?w H j] by (simp add: context_chars_def)
  from shift_oldest_char [of H ?w ?mx ?t] obtain k where "k \<le> length H"
    and "shift_oldest ?w ?mx ?t H = (?t - sum_list (map ?w (take k H)), drop k H)"
    and "\<forall>j<k. ?t - sum_list (map ?w (take j H)) > ?mx"
    and "k = length H \<or> ?t - sum_list (map ?w (take k H)) \<le> ?mx"
    by blast
  then have "k \<le> length H \<and>
     build_chat_history H c n
       = map (\<lambda>e. \<lparr>item_role = role e, item_content = content e,
                     item_images = None, item_tool_calls = None\<rparr>) (drop k H)
         @ [\<lparr>item_role = role_c c, item_content = content_c c,
              item_images = Some (images_c c), item_tool_calls = Some (tool_calls_c c)\<rparr>] \<and>
     (\<forall>j<k. int (length (content_c c)) + sum_list (map ?w (drop j H)) > (n + 1) div 2) \<and>
     (k = length H \<or>
      int (length (content_c c)) + sum_list (map ?w (drop k H)) \<le> (n + 1) div 2)"
    by (simp add: build_chat_history_alt rest historyMaxContextLength_eq
        role_content_def [abs_def] as_item_def)
  then show ?thesis by blast
qed

theorem build_chat_history_suffix_witness:
  "build_chat_history example_history (example_context ''hi'') 12
     = [\<lparr>item_role = ''assistant'', item_content = ''defg'',
         item_images = None, item_tool_calls = None\<rparr>,
        \<lparr>item_role = ''user'', item_content = ''hi'',
         item_images = Some [], item_tool_calls = Some []\<rparr>]"
proof -
  let ?w = "\<lambda>e. int (length (content e))"
  let ?c = "example_context ''hi''"
  from build_chat_history_suffix [of example_history ?c 12] obtain k
    where k: "k \<le> length example_history"
      and eq: "build_chat_history example_history ?c 12
       = map (\<lambda>e. \<lparr>item_role = role e, item_content = content e,
                     item_images = None, item_tool_calls = None\<rparr>) (drop k example_history)
         @ [\<lparr>item_role = role_c ?c, item_content = content_c ?c,
              item_images = Some (images_c ?c), item_tool_calls = Some (tool_calls_c ?c)\<rparr>]"
      and before: "\<forall>j<k. int (length (content_c ?c))
               + sum_list (map ?w (drop j example_history)) > (12 + 1) div 2"
      and stop: "k = length example_history \<or>
          int (length (content_c ?c)) + sum_list (map ?w (drop k example_history))
            \<le> (12 + 1) div 2"
    by blast
  have len: "length example_history = 2"
    by (simp add: example_history_def)
  have all: "int (length (content_c ?c)) + sum_list (map ?w (drop 0 example_history)) = 9"
    by (simp add: example_history_def example_entry_def example_context_def)
  have one: "int (length (content_c ?c)) + sum_list (map ?w (drop 1 example_history)) = 6"
    by (simp add: example_history_def example_entry_def example_context_def)
  have "k \<noteq> 0"
  proof
    assume "k = 0"
    with stop all len show False by simp
  qed
  moreover have "k \<noteq> 2"
  proof
    assume "k = 2"
    with before have "int (length (content_c ?c))
        + sum_list (map ?w (drop 1 example_history)) > (12 + 1) div 2"
      by simp
    with one show False by simp
  qed
  ultimately have "k = 1" using k len by arith
  with eq show ?thesis
    by (simp add: example_history_def example_entry_def example_context_def)
qed

section \<open>Saving a turn\<close>

text \<open>
  Claim C1, as amended. When \<open>regenerate_id\<close> is a non-empty \<open>X\<close> and some entry of the
  history \<open>H\<close> has id \<open>X\<close>, \<open>save_chat_history\<close> produces a list that is a suffix of: the
  entries of \<open>H\<close> strictly before the first entry with id \<open>X\<close>, unchanged and in their
  order, followed by one fresh entry, the assistant entry with the interrupted text as
  content. The entry of the user is not appended. When the content of the user
  entry is no longer than the budget \<open>Math.round(0.5 * context_length)\<close>, the list
  produced is that list itself.
\<close>

theorem save_chat_history_regenerate:
  assumes "X \<noteq> []" and "\<exists>e\<in>set H. id_h e = X"
  shows "(\<exists>k\<le>length (takeWhile (\<lambda>e. id_h e \<noteq> X) H @ [saved_assistant tok r]).
            save_chat_history nid tok H h r n (Some X)
              = drop k (takeWhile (\<lambda>e. id_h e \<noteq> X) H @ [saved_assistant tok r])) \<and>
         (int (length (content h)) \<le> historyMaxContextLength n \<longrightarrow>
            save_chat_history nid tok H h r n (Some X)
              = takeWhile (\<lambda>e. id_h e \<noteq> X) H @ [saved_assistant tok r])"
proof (intro conjI impI)
  show "\<exists>k\<le>length (takeWhile (\<lambda>e. id_h e \<noteq> X) H @ [saved_assistant tok r]).
            save_chat_history nid tok H h r n (Some X)
              = drop k (takeWhile (\<lambda>e. id_h e \<noteq> X) H @ [saved_assistant tok r])"
    unfolding regenerate_found_save [OF assms]
    by (rule shift_oldest_drop)
next
  assume "int (length (content h)) \<le> historyMaxContextLength n"
  then show "save_chat_history nid tok H h r n (Some X)
      = takeWhile (\<lambda>e. id_h e \<noteq> X) H @ [saved_assistant tok r]"
    unfolding regenerate_found_save [OF assms]
    by (simp add: shift_oldest_within)
qed

theorem save_chat_history_regenerate_witness:
  "''a1'' \<noteq> [] \<and> (\<exists>e\<in>set example_history. id_h e = ''a1'') \<and>
   int (length (content example_user)) \<le> historyMaxContextLength 4096 \<and>
   save_chat_history ''n1'' ''INTERRUPTED'' example_history example_user example_assistant 4096
      (Some ''a1'')
     = takeWhile (\<lambda>e. id_h e \<noteq> ''a1'') example_history
         @ [saved_assistant ''INTERRUPTED'' example_assistant]"
proof -
  have a: "''a1'' \<noteq> []" by simp
  have b: "\<exists>e\<in>set example_history. id_h e = ''a1''"
    by (simp add: example_history_def example_entry_def)
  have c: "int (length (content example_user)) \<le> historyMaxContextLength 4096"
    by (simp add: historyMax_4096 example_user_def example_entry_def)
  from save_chat_history_regenerate [OF a b, of "''INTERRUPTED''" example_assistant "''n1''"
      example_user 4096] c
  show ?thesis using b by simp
qed

text \<open>
  Claim C1 as it is stated fails: regenerating the answer with id \<open>a1\<close> in the history
  of one turn \<open>u1\<close>, \<open>a1\<close> gives a history of two entries, the stored user entry \<open>u1\<close>
  and the fresh assistant entry, and not the stored prefix \<open>u1\<close> followed by a fresh
  pair.
\<close>

theorem save_chat_history_regenerate_counterexample:
  "save_chat_history ''n1'' ''INTERRUPTED'' example_history example_user example_assistant 4096
      (Some ''a1'')
     = [example_entry ''u1'' ''user'' ''abc'' 3, saved_assistant ''INTERRUPTED'' example_assistant] \<and>
   save_chat_history ''n1'' ''INTERRUPTED'' example_history example_user example_assistant 4096
      (Some ''a1'')
     \<noteq> [example_entry ''u1'' ''user'' ''abc'' 3,
         saved_user ''n1'' example_user, saved_assistant ''INTERRUPTED'' example_assistant] \<and>
   length (save_chat_history ''n1'' ''INTERRUPTED'' example_history example_user example_assistant
      4096 (Some ''a1'')) = 2"
  by (simp add: example_save_regenerate)
    (simp add: example_assistant_def example_entry_def saved_assistant_def)




text \<open>
  Claim C7, as amended. Every entry persisted by \<open>save_chat_history\<close> is an entry of the
  stored history, the user entry or the assistant entry of the turn. The user entry
  carries a \<open>tokens\<close> field equal to the length of its content (0 when the content is
  empty). The assistant entry keeps the \<open>tokens\<close> value it was passed with, while its
  content is replaced by the interrupted text. Without \<open>regenerate_id\<close> and with a user
  content no longer than the budget, both entries are persisted after the stored history.
\<close>

theorem save_chat_history_tokens:
  "(\<forall>e\<in>set (save_chat_history nid tok H h r n rid).
       e \<in> set H \<or> e = saved_user nid h \<or> e = saved_assistant tok r) \<and>
   tokens (saved_user nid h) = int (length (content (saved_user nid h))) \<and>
   tokens (saved_assistant tok r) = tokens r \<and>
   content (saved_assistant tok r) = tok \<and>
   (\<not> truthy rid \<and> int (length (content h)) \<le> historyMaxContextLength n \<longrightarrow>
      save_chat_history nid tok H h r n rid = H @ [saved_user nid h, saved_assistant tok r])"
proof (intro conjI impI ballI)
  fix e assume e: "e \<in> set (save_chat_history nid tok H h r n rid)"
  let ?L = "(if truthy rid
         then (if findIndex (\<lambda>item. Some (id_h item) = rid) H > - 1
               then take (nat (findIndex (\<lambda>item. Some (id_h item) = rid) H)) H else H)
         else H @ [saved_user nid h]) @ [saved_assistant tok r]"
  from shift_oldest_drop [of ?L tokens "historyMaxContextLength n" "int (length (content h))"]
  obtain k where "save_chat_history nid tok H h r n rid = drop k ?L"
    by (auto simp only: save_chat_history_alt)
  with e have "e \<in> set ?L" by (auto dest: in_set_dropD)
  then show "e \<in> set H \<or> e = saved_user nid h \<or> e = saved_assistant tok r"
    by (auto split: if_splits dest: in_set_takeD)
next
  show "tokens (saved_user nid h) = int (length (content (saved_user nid h)))"
    by (simp add: saved_user_def)
  show "tokens (saved_assistant tok r) = tokens r"
    by (simp add: saved_assistant_def)
  show "content (saved_assistant tok r) = tok"
    by (simp add: saved_assistant_def)
next
  assume "\<not> truthy rid \<and> int (length (content h)) \<le> historyMaxContextLength n"
  then show "save_chat_history nid tok H h r n rid = H @ [saved_user nid h, saved_assistant tok r]"
    by (simp add: save_chat_history_within)
qed

theorem save_chat_history_tokens_witness:
  "\<not> truthy None \<and> int (length (content example_user)) \<le> historyMaxContextLength 4096 \<and>
   save_chat_history ''n1'' ''INTERRUPTED'' example_history example_user example_assistant 4096 None
     = example_history @ [saved_user ''n1'' example_user, saved_assistant ''INTERRUPTED'' example_assistant] \<and>
   tokens (saved_user ''n1'' example_user) = 2"
proof -
  have c: "int (length (content example_user)) \<le> historyMaxContextLength 4096"
    by (simp add: historyMax_4096 example_user_def example_entry_def)
  have t: "tokens (saved_user ''n1'' example_user) = 2"
    by (simp add: saved_user_def example_user_def example_entry_def)
  from save_chat_history_tokens [of "''n1''" "''INTERRUPTED''" example_history example_user
      example_assistant 4096 None] c t
  show ?thesis by simp
qed

text \<open>
  Claim C7 as it is stated fails for the assistant entry: passed with \<open>tokens = 0\<close>, it
  is persisted with \<open>tokens = 0\<close> and a content of eleven characters.
\<close>

theorem save_chat_history_tokens_counterexample:
  "tokens (last (save_chat_history ''n1'' ''INTERRUPTED'' [] example_user example_assistant 4096 None)) = 0 \<and>
   int (length (content (last
      (save_chat_history ''n1'' ''INTERRUPTED'' [] example_user example_assistant 4096 None)))) = 11 \<and>
   tokens (last (save_chat_history ''n1'' ''INTERRUPTED'' [] example_user example_assistant 4096 None))
     \<noteq> int (length (content (last
      (save_chat_history ''n1'' ''INTERRUPTED'' [] example_user example_assistant 4096 None))))"
  by (simp add: example_save_append) (simp add: example_entry_def)

section \<open>Turn parity\<close>

text \<open>
  Claim C3, as amended. From a history that has turn parity (an even number of entries,
  roles alternating user, assistant from index 0), the result has turn parity again in
  these cases: a turn saved without \<open>regenerate_id\<close>, the entries having the roles user
  and assistant and the user content being no longer than the budget; a turn saved with a
  non-empty \<open>regenerate_id\<close> whose first entry in the history stands at an odd index (an
  assistant entry), the new assistant entry having the role assistant and the user content
  being no longer than the budget; an entry corrected by an entry of the same role; a
  deletion with an id that no entry has. When the ids of the history are pairwise distinct,
  deleting an entry that is present never gives a history with turn parity.
\<close>

theorem turn_parity_preserved:
  assumes "turn_parity H"
  shows
    "(\<not> truthy rid \<and> role h = ''user'' \<and> role r = ''assistant'' \<and>
      int (length (content h)) \<le> historyMaxContextLength n
        \<longrightarrow> turn_parity (save_chat_history nid tok H h r n rid)) \<and>
     (X \<noteq> [] \<and> (\<exists>e\<in>set H. id_h e = X) \<and> odd (length (takeWhile (\<lambda>e. id_h e \<noteq> X) H)) \<and>
      role r = ''assistant'' \<and> int (length (content h)) \<le> historyMaxContextLength n
        \<longrightarrow> turn_parity (save_chat_history nid tok H h r n (Some X))) \<and>
     ((\<forall>e\<in>set H. id_h e = ident \<longrightarrow> role e = role h')
        \<longrightarrow> turn_parity (set_chat_history H ident h')) \<and>
     ((\<forall>e\<in>set H. id_h e \<noteq> ident)
        \<longrightarrow> turn_parity (delete_chat_history H ident)) \<and>
     (distinct (map id_h H) \<and> (\<exists>e\<in>set H. id_h e = ident)
        \<longrightarrow> \<not> turn_parity (delete_chat_history H ident))"
proof (intro conjI impI)
  assume a: "\<not> truthy rid \<and> role h = ''user'' \<and> role r = ''assistant'' \<and>
      int (length (content h)) \<le> historyMaxContextLength n"
  then have "save_chat_history nid tok H h r n rid = H @ [saved_user nid h, saved_assistant tok r]"
    by (simp add: save_chat_history_within)
  with a assms show "turn_parity (save_chat_history nid tok H h r n rid)"
    by (simp add: turn_parity_append_pair saved_user_def saved_assistant_def)
next
  assume a: "X \<noteq> [] \<and> (\<exists>e\<in>set H. id_h e = X) \<and> odd (length (takeWhile (\<lambda>e. id_h e \<noteq> X) H)) \<and>
      role r = ''assistant'' \<and> int (length (content h)) \<le> historyMaxContextLength n"
  let ?k = "length (takeWhile (\<lambda>e. id_h e \<noteq> X) H)"
  from a have eq: "save_chat_history nid tok H h r n (Some X)
      = takeWhile (\<lambda>e. id_h e \<noteq> X) H @ [saved_assistant tok r]"
    by (simp add: regenerate_found_save shift_oldest_within)
  have "?k \<le> length H" by (rule length_takeWhile_le)
  moreover from a have "takeWhile (\<lambda>e. id_h e \<noteq> X) H \<noteq> H"
    by (auto simp: takeWhile_eq_all_conv)
  ultimately have "?k < length H"
    by (metis le_neq_implies_less takeWhile_eq_take take_all order_refl)
  moreover have "takeWhile (\<lambda>e. id_h e \<noteq> X) H = take ?k H"
    by (rule takeWhile_eq_take)
  ultimately have "turn_parity (takeWhile (\<lambda>e. id_h e \<noteq> X) H @ [saved_assistant tok r])
      = (role (saved_assistant tok r) = ''assistant'')"
    using turn_parity_take_snoc [OF assms, of ?k "saved_assistant tok r"] a by simp
  with a eq show "turn_parity (save_chat_history nid tok H h r n (Some X))"
    by (simp add: saved_assistant_def)
next
  assume "\<forall>e\<in>set H. id_h e = ident \<longrightarrow> role e = role h'"
  with assms show "turn_parity (set_chat_history H ident h')"
    by (rule set_chat_history_parity)
next
  assume "\<forall>e\<in>set H. id_h e \<noteq> ident"
  with assms show "turn_parity (delete_chat_history H ident)"
    by (simp add: delete_chat_history_absent)
next
  assume a: "distinct (map id_h H) \<and> (\<exists>e\<in>set H. id_h e = ident)"
  then have "Suc (length (delete_chat_history H ident)) = length H"
    by (simp add: delete_chat_history_length)
  moreover from assms have "even (length H)" by (rule turn_parity_even)
  ultimately have "odd (length (delete_chat_history H ident))"
    by (metis even_Suc)
  then show "\<not> turn_parity (delete_chat_history H ident)"
    using turn_parity_even by blast
qed

theorem turn_parity_preserved_witness:
  "turn_parity example_history \<and>
   \<not> truthy None \<and> role example_user = ''user'' \<and> role example_assistant = ''assistant'' \<and>
   int (length (content example_user)) \<le> historyMaxContextLength 4096 \<and>
   turn_parity (save_chat_history ''n1'' ''INTERRUPTED'' example_history example_user
      example_assistant 4096 None) \<and>
   ''a1'' \<noteq> [] \<and> (\<exists>e\<in>set example_history. id_h e = ''a1'') \<and>
   odd (length (takeWhile (\<lambda>e. id_h e \<noteq> ''a1'') example_history)) \<and>
   turn_parity (save_chat_history ''n1'' ''INTERRUPTED'' example_history example_user
      example_assistant 4096 (Some ''a1'')) \<and>
   turn_parity (set_chat_history example_history ''a1'' example_assistant) \<and>
   turn_parity (delete_chat_history example_history ''zz'') \<and>
   distinct (map id_h example_history) \<and>
   \<not> turn_parity (delete_chat_history example_history ''a1'')"
proof -
  have c: "int (length (content example_user)) \<le> historyMaxContextLength 4096"
    by (simp add: historyMax_4096 example_user_def example_entry_def)
  have r: "role example_user = ''user''" "role example_assistant = ''assistant''"
    by (simp_all add: example_user_def example_assistant_def example_entry_def)
  note f = example_history_facts
  from turn_parity_preserved [OF f(1), of None example_user example_assistant 4096 "''n1''"
      "''INTERRUPTED''" "''a1''" "''a1''" example_assistant]
    turn_parity_preserved [OF f(1), of None example_user example_assistant 4096 "''n1''"
      "''INTERRUPTED''" "''a1''" "''zz''" example_assistant]
    c r f
  show ?thesis by simp
qed

text \<open>
  Claim C3 as it is stated fails: saving a first turn and deleting its assistant entry,
  both operations of the store, leads to a history of one entry.
\<close>

theorem turn_parity_counterexample:
  "turn_parity (save_chat_history ''n1'' ''INTERRUPTED'' [] example_user example_assistant 4096 None) \<and>
   \<not> turn_parity (delete_chat_history
        (save_chat_history ''n1'' ''INTERRUPTED'' [] example_user example_assistant 4096 None) ''r1'')"
  by (simp add: example_save_append) (simp add: example_entry_def delete_chat_history_def)

section \<open>Conversations in the object store\<close>

text \<open>
  Claim C6. \<open>create_chat\<close> returns a config whose title is the supplied title when that
  has at most 18 characters and its first 18 characters otherwise, so a title of at most
  18 characters in every case (the empty title when the argument is left out). The
  config that it returns is the document that it saves at the config path of the
  conversation: when the write succeeds, the file holds the text of the returned config.
\<close>

theorem create_chat_title:
  "get_prop (fst (create_chat env fs uuid now model parameters (Some title))) ''title''
     = Some (JStr (if length title > 18 then take 18 title else title)) \<and>
   length (if length title > 18 then take 18 title else title) \<le> 18 \<and>
   get_prop (fst (create_chat env fs uuid now model parameters None)) ''title'' = Some (JStr []) \<and>
   snd (create_chat env fs uuid now model parameters title_arg)
     = saveJsonFile env fs (getConfigFilePath env uuid)
         (fst (create_chat env fs uuid now model parameters title_arg)) \<and>
   (writable fs (getConfigFilePath env uuid) \<longrightarrow>
      files (snd (create_chat env fs uuid now model parameters title_arg))
            (getConfigFilePath env uuid)
        = Some (JSON_stringify env
             (fst (create_chat env fs uuid now model parameters title_arg))))"
  by (simp add: create_chat_def Let_def saveJsonFile_def write_file_def)

theorem create_chat_title_witness:
  "writable example_fs (getConfigFilePath example_env ''c9'') \<and>
   get_prop (fst (create_chat example_env example_fs ''c9'' 1700000000 ''llama3'' ''8b''
       (Some ''a title longer than eighteen''))) ''title'' = Some (JStr ''a title longer tha'') \<and>
   files (snd (create_chat example_env example_fs ''c9'' 1700000000 ''llama3'' ''8b''
       (Some ''a title longer than eighteen''))) (getConfigFilePath example_env ''c9'')
     = Some (JSON_stringify example_env example_created)"
proof -
  have w: "writable example_fs (getConfigFilePath example_env ''c9'')"
    by (simp add: example_fs_def)
  note t = create_chat_title [of example_env example_fs "''c9''" 1700000000 "''llama3''" "''8b''"
      "''a title longer than eighteen''" "Some ''a title longer than eighteen''"]
  from t have 1: "get_prop (fst (create_chat example_env example_fs ''c9'' 1700000000 ''llama3'' ''8b''
       (Some ''a title longer than eighteen''))) ''title'' = Some (JStr ''a title longer tha'')"
    by simp
  from t w have 2: "files (snd (create_chat example_env example_fs ''c9'' 1700000000 ''llama3'' ''8b''
       (Some ''a title longer than eighteen''))) (getConfigFilePath example_env ''c9'')
     = Some (JSON_stringify example_env (fst (create_chat example_env example_fs ''c9'' 1700000000
         ''llama3'' ''8b'' (Some ''a title longer than eighteen''))))"
    by blast
  from w 1 2 show ?thesis by (simp only: example_create simp_thms)
qed

text \<open>
  Claim C9, as amended. When the write of the config file succeeds, and given that
  \<open>JSON.parse\<close> gives back the config from the non-empty text that \<open>JSON.stringify\<close> makes
  of it, \<open>read_chat\<close> right after \<open>create_chat\<close> returns a config equal to the one that
  \<open>create_chat\<close> returned: the same model, parameters, truncated title, contextPath,
  context_id and create_time.
\<close>

theorem create_chat_read_chat:
  assumes "writable fs (getConfigFilePath env uuid)"
    and "JSON_parse env (JSON_stringify env
            (fst (create_chat env fs uuid now model parameters title)))
         = Some (fst (create_chat env fs uuid now model parameters title))"
    and "JSON_stringify env (fst (create_chat env fs uuid now model parameters title)) \<noteq> []"
  shows "read_chat env (snd (create_chat env fs uuid now model parameters title)) uuid
     = fst (create_chat env fs uuid now model parameters title)"
  using assms
  by (simp add: create_chat_def Let_def saveJsonFile_def write_file_def read_chat_def
      readJsonFile_def file_exists_def read_file_def)

theorem create_chat_read_chat_witness:
  "writable example_fs (getConfigFilePath example_env ''c9'') \<and>
   JSON_parse example_env (JSON_stringify example_env example_created) = Some example_created \<and>
   JSON_stringify example_env example_created \<noteq> [] \<and>
   read_chat example_env
      (snd (create_chat example_env example_fs ''c9'' 1700000000 ''llama3'' ''8b''
         (Some ''a title longer than eighteen''))) ''c9''
     = example_created"
proof -
  have w: "writable example_fs (getConfigFilePath example_env ''c9'')"
    by (simp add: example_fs_def)
  have p: "JSON_parse example_env (JSON_stringify example_env example_created) = Some example_created"
    by (simp add: example_codec)
  have n: "JSON_stringify example_env example_created \<noteq> []"
    by (simp add: example_codec)
  from create_chat_read_chat [of example_fs example_env "''c9''" 1700000000 "''llama3''" "''8b''"
      "Some ''a title longer than eighteen''"] w p n
  show ?thesis by (simp add: example_create)
qed

text \<open>
  Claim C9 as it is stated fails when the write fails: \<open>saveJsonFile\<close> catches the error,
  \<open>create_chat\<close> returns the config all the same, and \<open>read_chat\<close> finds no file and
  returns the empty array.
\<close>

theorem create_chat_read_chat_counterexample:
  "fst (create_chat example_env example_readonly ''c9'' 1700000000 ''llama3'' ''8b''
          (Some ''a title longer than eighteen'')) = example_created \<and>
   read_chat example_env
      (snd (create_chat example_env example_readonly ''c9'' 1700000000 ''llama3'' ''8b''
         (Some ''a title longer than eighteen''))) ''c9''
     = JArr [] \<and>
   read_chat example_env
      (snd (create_chat example_env example_readonly ''c9'' 1700000000 ''llama3'' ''8b''
         (Some ''a title longer than eighteen''))) ''c9''
     \<noteq> fst (create_chat example_env example_readonly ''c9'' 1700000000 ''llama3'' ''8b''
          (Some ''a title longer than eighteen''))"
proof -
  have "snd (create_chat example_env example_readonly ''c9'' 1700000000 ''llama3'' ''8b''
         (Some ''a title longer than eighteen'')) = example_readonly"
    by (simp add: create_chat_def Let_def saveJsonFile_def write_file_def example_readonly_def)
  moreover have "read_chat example_env example_readonly ''c9'' = JArr []"
    by (simp add: read_chat_def readJsonFile_def file_exists_def getConfigFilePath_def
        example_paths example_readonly_def example_fs_def)
  ultimately show ?thesis
    by (simp add: example_create) (simp add: example_created_def)
qed

text \<open>
  Claim C8. Reading a file that is missing, empty or no JSON gives the empty array:
  \<open>readJsonFile\<close> at any path, \<open>read_chat\<close> and \<open>read_history\<close> for the config and the
  history of a conversation. \<open>get_chat_list\<close> skips the directories with such a config
  file: its outcome is the one it has on the listing without these directories, and it
  returns the empty list when every config file is such a file.
\<close>

theorem read_tolerates_unreadable_files:
  "(unreadable env fs filePath \<longrightarrow> readJsonFile env fs filePath = JArr []) \<and>
   (unreadable env fs (getConfigFilePath env uuid) \<longrightarrow> read_chat env fs uuid = JArr []) \<and>
   (unreadable env fs (getHistoryFilePath env uuid) \<longrightarrow> read_history env fs uuid = JArr []) \<and>
   get_chat_list env fs =
     get_chat_list
       (env\<lparr>readdir := \<lambda>p. filter (\<lambda>dir. \<not> unreadable env fs (path_resolve env dir ''config.json''))
                               (readdir env p)\<rparr>) fs \<and>
   ((\<forall>dir\<in>set (readdir env (getContextPath env [])).
        unreadable env fs (path_resolve env dir ''config.json''))
      \<longrightarrow> get_chat_list env fs = Inr [])"
proof (intro conjI impI)
  assume "unreadable env fs filePath"
  then show "readJsonFile env fs filePath = JArr []" by (rule readJsonFile_unreadable)
next
  assume "unreadable env fs (getConfigFilePath env uuid)"
  then show "read_chat env fs uuid = JArr []"
    by (simp add: read_chat_def readJsonFile_unreadable)
next
  assume "unreadable env fs (getHistoryFilePath env uuid)"
  then show "read_history env fs uuid = JArr []"
    by (simp add: read_history_def readJsonFile_unreadable)
next
  let ?keep = "\<lambda>dir. \<not> unreadable env fs (path_resolve env dir ''config.json'')"
  let ?env = "env\<lparr>readdir := \<lambda>p. filter ?keep (readdir env p)\<rparr>"
  have rj: "readJsonFile ?env fs p = readJsonFile env fs p" for p
    by (simp add: readJsonFile_def Let_def)
  have same: "collect_contexts ?env fs dirs acc = collect_contexts env fs dirs acc" for dirs acc
    by (induction dirs arbitrary: acc) (auto simp: rj Let_def split: sum.splits)
  show "get_chat_list env fs = get_chat_list ?env fs"
    using collect_contexts_skip [of env fs "readdir env (getContextPath env [])" "[]"]
    by (auto simp: get_chat_list_def Let_def same getContextPath_def compare_create_time_readdir
        split: sum.splits)
next
  assume "\<forall>dir\<in>set (readdir env (getContextPath env [])).
        unreadable env fs (path_resolve env dir ''config.json'')"
  then show "get_chat_list env fs = Inr []"
    by (simp add: get_chat_list_def Let_def collect_contexts_all_unreadable)
qed

theorem read_tolerates_unreadable_files_witness:
  "unreadable example_env example_fs ''ctx/c3/config.json'' \<and>
   readJsonFile example_env example_fs ''ctx/c3/config.json'' = JArr [] \<and>
   unreadable example_env example_fs (getConfigFilePath example_env ''c4'') \<and>
   read_chat example_env example_fs ''c4'' = JArr [] \<and>
   unreadable example_env example_fs (getHistoryFilePath example_env ''c1'') \<and>
   read_history example_env example_fs ''c1'' = JArr [] \<and>
   get_chat_list example_env example_fs
     = get_chat_list (example_env\<lparr>readdir := \<lambda>p. [''ctx/c1'', ''ctx/c2'']\<rparr>) example_fs \<and>
   list_all (\<lambda>dir. unreadable example_env example_fs (path_resolve example_env dir ''config.json''))
     [''ctx/c3'', ''ctx/c4'', ''ctx/c5''] \<and>
   get_chat_list (example_env\<lparr>readdir := \<lambda>p. [''ctx/c3'', ''ctx/c4'', ''ctx/c5'']\<rparr>) example_fs
     = Inr []"
proof -
  let ?env3 = "example_env\<lparr>readdir := \<lambda>p. [''ctx/c3'', ''ctx/c4'', ''ctx/c5'']\<rparr>"
  have u3: "unreadable example_env example_fs ''ctx/c3/config.json''"
    by (rule example_unreadable)
  have u4: "unreadable example_env example_fs (getConfigFilePath example_env ''c4'')"
    by (simp add: getConfigFilePath_def example_paths example_unreadable)
  have uh: "unreadable example_env example_fs (getHistoryFilePath example_env ''c1'')"
    by (simp add: getHistoryFilePath_def example_paths unreadable_def example_fs_def)
  have same: "unreadable ?env3 example_fs p = unreadable example_env example_fs p" for p
    by (auto simp: unreadable_def split: option.splits)
  have all3: "\<forall>dir\<in>set (readdir ?env3 (getContextPath ?env3 [])).
      unreadable ?env3 example_fs (path_resolve ?env3 dir ''config.json'')"
    by (simp add: same example_paths example_unreadable)
  have l3: "list_all (\<lambda>dir. unreadable example_env example_fs (path_resolve example_env dir ''config.json''))
     [''ctx/c3'', ''ctx/c4'', ''ctx/c5'']"
    by (simp add: example_paths example_unreadable)
  note t = read_tolerates_unreadable_files [of example_env example_fs "''ctx/c3/config.json''" "''c4''"]
  note t1 = read_tolerates_unreadable_files [of example_env example_fs "''ctx/c3/config.json''" "''c1''"]
  note t3 = read_tolerates_unreadable_files [of ?env3 example_fs "''ctx/c3/config.json''" "''c1''"]
  from t u3 have 1: "readJsonFile example_env example_fs ''ctx/c3/config.json'' = JArr []"
    by blast
  from t u4 have 2: "read_chat example_env example_fs ''c4'' = JArr []"
    by blast
  from t1 uh have 3: "read_history example_env example_fs ''c1'' = JArr []"
    by blast
  have keep: "filter (\<lambda>dir. \<not> unreadable example_env example_fs
        (path_resolve example_env dir ''config.json'')) (readdir example_env p)
      = [''ctx/c1'', ''ctx/c2'']" for p
    by (simp add: example_paths example_unreadable)
  from t have 4: "get_chat_list example_env example_fs
     = get_chat_list (example_env\<lparr>readdir := \<lambda>p. [''ctx/c1'', ''ctx/c2'']\<rparr>) example_fs"
    by (simp only: keep)
  from t3 all3 have 5: "get_chat_list ?env3 example_fs = Inr []"
    by blast
  from u3 u4 uh l3 1 2 3 4 5 show ?thesis
    by (simp only: simp_thms)
qed

text \<open>
  Claim C10, as amended. When no config document read is null or a non-empty string, and
  every \<open>create_time\<close> that a document carries is a number, \<open>get_chat_list\<close> returns a
  list that holds exactly the configs of the directories whose config document is
  non-empty, in descending order of \<open>create_time\<close> (the stable sort of these configs in
  the order of the listing). A config that has a \<open>create_time\<close> is listed as it is; a
  config without one, an object or an array, is listed with the creation time of the
  config file in whole seconds as added \<open>create_time\<close>, or 0 when the file cannot be
  stat'ed.
\<close>

theorem get_chat_list_sorted:
  assumes "\<forall>dir\<in>set (readdir env (getContextPath env [])). config_document (config_at env fs dir)"
  shows "\<exists>result.
     get_chat_list env fs = Inr result \<and>
     mset result = mset (map (listed_config env fs)
        (filter (\<lambda>dir. nonempty_document (config_at env fs dir))
           (readdir env (getContextPath env [])))) \<and>
     sorted_wrt (\<lambda>a b. number_create_time a \<ge> number_create_time b) result \<and>
     result = sort_key (\<lambda>c. - number_create_time c) (map (listed_config env fs)
        (filter (\<lambda>dir. nonempty_document (config_at env fs dir))
           (readdir env (getContextPath env [])))) \<and>
     (\<forall>dir\<in>set (readdir env (getContextPath env [])).
        (\<forall>v. get_prop (config_at env fs dir) ''create_time'' = Some v
              \<longrightarrow> listed_config env fs dir = config_at env fs dir) \<and>
        (\<forall>kvs. config_at env fs dir = JObj kvs \<and> map_of kvs ''create_time'' = None
              \<longrightarrow> listed_config env fs dir = JObj (kvs @ [(''create_time'',
                     JNum (case stat_birthtime env (path_resolve env dir ''config.json'') of
                             Some ms \<Rightarrow> ms div 1000 | None \<Rightarrow> 0))])) \<and>
        (\<forall>xs. config_at env fs dir = JArr xs
              \<longrightarrow> listed_config env fs dir = JArrWith xs [(''create_time'',
                     JNum (case stat_birthtime env (path_resolve env dir ''config.json'') of
                             Some ms \<Rightarrow> ms div 1000 | None \<Rightarrow> 0))]))"
proof -
  let ?dirs = "readdir env (getContextPath env [])"
  let ?listed = "map (listed_config env fs)
        (filter (\<lambda>dir. nonempty_document (config_at env fs dir)) ?dirs)"
  let ?result = "sort_key (\<lambda>c. - number_create_time c) ?listed"
  have collect: "collect_contexts env fs ?dirs [] = Inr ?listed"
    using collect_contexts_listed [OF assms, of "[]"] by simp
  have numbers: "\<forall>c\<in>set ?listed. has_number_create_time c"
    using assms listed_config_number by auto
  have run: "get_chat_list env fs = Inr ?result"
    unfolding get_chat_list_def Let_def collect
    by (simp only: sum.case Array_sort_numbers [OF numbers])
  have "mset ?result = mset ?listed" by simp
  moreover have "sorted_wrt (\<lambda>a b. number_create_time a \<ge> number_create_time b) ?result"
    by (rule sorted_wrt_descending)
  moreover have "\<forall>dir\<in>set ?dirs.
        (\<forall>v. get_prop (config_at env fs dir) ''create_time'' = Some v
              \<longrightarrow> listed_config env fs dir = config_at env fs dir) \<and>
        (\<forall>kvs. config_at env fs dir = JObj kvs \<and> map_of kvs ''create_time'' = None
              \<longrightarrow> listed_config env fs dir = JObj (kvs @ [(''create_time'',
                     JNum (case stat_birthtime env (path_resolve env dir ''config.json'') of
                             Some ms \<Rightarrow> ms div 1000 | None \<Rightarrow> 0))])) \<and>
        (\<forall>xs. config_at env fs dir = JArr xs
              \<longrightarrow> listed_config env fs dir = JArrWith xs [(''create_time'',
                     JNum (case stat_birthtime env (path_resolve env dir ''config.json'') of
                             Some ms \<Rightarrow> ms div 1000 | None \<Rightarrow> 0))])"
    using listed_config_present
    by (auto simp: listed_config_def file_seconds_def)
  ultimately show ?thesis using run by blast
qed

theorem get_chat_list_sorted_witness:
  "list_all (\<lambda>dir. config_document (config_at example_env_array example_odd_fs dir))
     (readdir example_env_array (getContextPath example_env_array [])) \<and>
   get_chat_list example_env_array example_odd_fs
     = Inr [JObj [(''title'', JStr ''second''), (''create_time'', JNum 250)],
            JObj [(''title'', JStr ''first''), (''create_time'', JNum 100)],
            JArrWith [JNum 7] [(''create_time'', JNum 0)]]"
proof -
  have docs: "\<forall>dir\<in>set (readdir example_env_array (getContextPath example_env_array [])).
      config_document (config_at example_env_array example_odd_fs dir)"
    by (simp add: example_odd_paths example_odd_configs example_first_def example_second_def)
  from get_chat_list_sorted [OF docs] obtain result
    where run: "get_chat_list example_env_array example_odd_fs = Inr result"
      and res: "result = sort_key (\<lambda>c. - number_create_time c)
        (map (listed_config example_env_array example_odd_fs)
        (filter (\<lambda>dir. nonempty_document (config_at example_env_array example_odd_fs dir))
           (readdir example_env_array (getContextPath example_env_array []))))"
    by blast
  have "result = [JObj [(''title'', JStr ''second''), (''create_time'', JNum 250)],
            JObj [(''title'', JStr ''first''), (''create_time'', JNum 100)],
            JArrWith [JNum 7] [(''create_time'', JNum 0)]]"
    unfolding res
    by (simp add: example_odd_paths example_odd_configs nonempty_document_def listed_config_def
        example_first_def example_second_def file_seconds_def)
      (simp add: example_env_array_def example_env_def)
  with run docs show ?thesis
    by (simp add: list_all_iff)
qed

text \<open>
  Claim C10 as it is stated fails on three kinds of config document. With a config whose
  text is \<open>null\<close> in the listing, or one that is a JSON string, \<open>get_chat_list\<close> throws a
  TypeError and returns no list. With the \<open>create_time\<close> values 1, the string \<open>x\<close> and 2,
  in this order, every comparison with the string gives NaN, the list is returned in
  the order of the listing, and 1 comes before 2.
\<close>

theorem get_chat_list_sorted_counterexample:
  "config_at example_env_null example_odd_fs ''ctx/c6'' = JNull \<and>
   get_chat_list example_env_null example_odd_fs = Inl TypeError \<and>
   config_at example_env_string example_odd_fs ''ctx/c7'' = JStr ''hello'' \<and>
   get_chat_list example_env_string example_odd_fs = Inl TypeError \<and>
   get_chat_list example_env_mixed example_odd_fs
     = Inr [JObj [(''create_time'', JNum 1)],
            JObj [(''create_time'', JStr ''x'')],
            JObj [(''create_time'', JNum 2)]] \<and>
   number_create_time (JObj [(''create_time'', JNum 1)])
     < number_create_time (JObj [(''create_time'', JNum 2)])"
  by (simp add: example_null_run example_string_run example_mixed_run example_odd_configs)

end
